theory Spec2Isabelle
  imports Main "HOL-Library.Sublist"
begin

section \<open>JavaScript strings and the string operations the bridge uses\<close>

text \<open>
  A JavaScript string is modelled by its UTF-8 byte sequence, a \<open>string\<close> (\<open>char list\<close>):
  this is the form in which a script is written to the interpreter's standard input and in
  which its standard output arrives. Every separator and marker of the source is an ASCII
  literal, ASCII bytes never occur inside a multi-byte UTF-8 sequence, and the only index the
  source takes (\<open>indexOf\<close>) is used to cut a prefix, so searching, splitting and cutting bytes
  agrees with searching, splitting and cutting UTF-16 code units. The white space that
  \<open>trim\<close> and \<open>parseInt\<close> strip is listed with its multi-byte members. Strings with lone
  surrogates have no UTF-8 form and are outside the model.
\<close>

text \<open>\<open>s.indexOf(pat)\<close>: the first position where \<open>pat\<close> occurs, \<open>None\<close> for JavaScript's \<open>-1\<close>.\<close>

fun indexOf :: "string \<Rightarrow> string \<Rightarrow> nat option" where
  "indexOf pat [] = (if pat = [] then Some 0 else None)"
| "indexOf pat (c # cs) =
     (if prefix pat (c # cs) then Some 0 else map_option Suc (indexOf pat cs))"

text \<open>\<open>s.includes(pat)\<close>.\<close>

definition includesStr :: "string \<Rightarrow> string \<Rightarrow> bool" where
  "includesStr pat s = (indexOf pat s \<noteq> None)"

text \<open>
  \<open>s.split(sep)\<close> for a non-empty separator string: the text is scanned from the left, every
  occurrence of \<open>sep\<close> closes the current piece and the scan resumes behind it. \<open>cur\<close> holds the
  current piece, reversed. Every separator in the source is a non-empty literal; for the empty
  separator (which JavaScript splits into single code units) the scan finds no occurrence.
\<close>

fun splitFrom :: "string \<Rightarrow> string \<Rightarrow> string \<Rightarrow> string list" where
  "splitFrom sep cur [] = [rev cur]"
| "splitFrom sep cur (c # cs) =
     (if sep \<noteq> [] \<and> prefix sep (c # cs)
      then rev cur # splitFrom sep [] (drop (length sep - 1) cs)
      else splitFrom sep (c # cur) cs)"

definition split :: "string \<Rightarrow> string \<Rightarrow> string list" where
  "split sep s = splitFrom sep [] s"

text \<open>\<open>parts.join(sep)\<close>.\<close>

fun join :: "string \<Rightarrow> string list \<Rightarrow> string" where
  "join sep [] = []"
| "join sep [x] = x"
| "join sep (x # y # ys) = x @ sep @ join sep (y # ys)"

text \<open>\<open>xs.filter(Boolean)\<close> on an array of strings keeps the non-empty ones.\<close>

definition filterBoolean :: "string list \<Rightarrow> string list" where
  "filterBoolean xs = filter (\<lambda>x. x \<noteq> []) xs"

text \<open>
  The ECMAScript WhiteSpace and LineTerminator code points, in UTF-8: TAB, LF, VT, FF, CR,
  SPACE, U+00A0, U+1680, U+2000 to U+200A, U+2028, U+2029, U+202F, U+205F, U+3000, U+FEFF.
\<close>

definition whiteSpace :: "string list" where
  "whiteSpace =
    [[CHR 0x09], [CHR 0x0A], [CHR 0x0B], [CHR 0x0C], [CHR 0x0D], [CHR 0x20],
     [CHR 0xC2, CHR 0xA0],
     [CHR 0xE1, CHR 0x9A, CHR 0x80],
     [CHR 0xE2, CHR 0x80, CHR 0x80], [CHR 0xE2, CHR 0x80, CHR 0x81],
     [CHR 0xE2, CHR 0x80, CHR 0x82], [CHR 0xE2, CHR 0x80, CHR 0x83],
     [CHR 0xE2, CHR 0x80, CHR 0x84], [CHR 0xE2, CHR 0x80, CHR 0x85],
     [CHR 0xE2, CHR 0x80, CHR 0x86], [CHR 0xE2, CHR 0x80, CHR 0x87],
     [CHR 0xE2, CHR 0x80, CHR 0x88], [CHR 0xE2, CHR 0x80, CHR 0x89],
     [CHR 0xE2, CHR 0x80, CHR 0x8A],
     [CHR 0xE2, CHR 0x80, CHR 0xA8], [CHR 0xE2, CHR 0x80, CHR 0xA9],
     [CHR 0xE2, CHR 0x80, CHR 0xAF],
     [CHR 0xE2, CHR 0x81, CHR 0x9F],
     [CHR 0xE3, CHR 0x80, CHR 0x80],
     [CHR 0xEF, CHR 0xBB, CHR 0xBF]]"

text \<open>\<open>s.trimStart()\<close>, \<open>s.trimEnd()\<close> and \<open>s.trim()\<close>.\<close>

function trimStart :: "string \<Rightarrow> string" where
  "trimStart s =
     (case List.find (\<lambda>w. prefix w s) whiteSpace of
        None \<Rightarrow> s
      | Some w \<Rightarrow> trimStart (drop (length w) s))"
  by pat_completeness auto
termination
proof (relation "measure length")
  show "wf (measure length)" by simp
next
  fix s w
  assume "List.find (\<lambda>w. prefix w s) whiteSpace = Some w"
  then have mem: "w \<in> set whiteSpace" and pre: "prefix w s"
    by (auto simp: find_Some_iff)
  from mem have "w \<noteq> []" by (auto simp: whiteSpace_def)
  moreover from pre have "length w \<le> length s" by (rule prefix_length_le)
  ultimately show "(drop (length w) s, s) \<in> measure length"
    by (cases w) auto
qed

function trimEnd :: "string \<Rightarrow> string" where
  "trimEnd s =
     (case List.find (\<lambda>w. suffix w s) whiteSpace of
        None \<Rightarrow> s
      | Some w \<Rightarrow> trimEnd (take (length s - length w) s))"
  by pat_completeness auto
termination
proof (relation "measure length")
  show "wf (measure length)" by simp
next
  fix s w
  assume "List.find (\<lambda>w. suffix w s) whiteSpace = Some w"
  then have mem: "w \<in> set whiteSpace" and suf: "suffix w s"
    by (auto simp: find_Some_iff)
  from mem have "w \<noteq> []" by (auto simp: whiteSpace_def)
  moreover from suf have "length w \<le> length s" by (rule suffix_length_le)
  ultimately show "(take (length s - length w) s, s) \<in> measure length"
    by (cases w) auto
qed

definition trim :: "string \<Rightarrow> string" where
  "trim s = trimEnd (trimStart s)"

text \<open>
  A JavaScript number as \<open>parseInt\<close> yields it: \<open>NaN\<close> or an integer. The integer is kept
  exact, where JavaScript holds a double: it rounds the integer to the nearest double beyond
  \<open>2^53\<close>, yields \<open>Infinity\<close> beyond the range of doubles and distinguishes \<open>-0\<close>. The
  comparison \<open>> 0\<close> in the source sees none of this; the numeric value itself is exact only
  up to \<open>2^53\<close>.
\<close>

datatype jsnum = NaN | Num int

definition digitVal :: "char \<Rightarrow> nat option" where
  "digitVal c =
     (let n = (of_char c :: nat) in
      if 48 \<le> n \<and> n \<le> 57 then Some (n - 48)
      else if 97 \<le> n \<and> n \<le> 122 then Some (n - 87)
      else if 65 \<le> n \<and> n \<le> 90 then Some (n - 55)
      else None)"

definition isDigit :: "nat \<Rightarrow> char \<Rightarrow> bool" where
  "isDigit radix c = (case digitVal c of None \<Rightarrow> False | Some d \<Rightarrow> d < radix)"

text \<open>
  \<open>parseInt(s)\<close> without a radix: leading white space is skipped, a sign is read, a \<open>0x\<close> or
  \<open>0X\<close> prefix selects radix 16 (radix 10 otherwise), and the longest run of digits is
  converted; no digit at all gives \<open>NaN\<close>.
\<close>

definition parseInt :: "string \<Rightarrow> jsnum" where
  "parseInt s =
     (let t = trimStart s;
          neg = prefix ''-'' t;
          t1 = (if prefix ''-'' t \<or> prefix ''+'' t then drop 1 t else t);
          hex = (prefix ''0x'' t1 \<or> prefix ''0X'' t1);
          radix = (if hex then 16 else 10);
          t2 = (if hex then drop 2 t1 else t1);
          ds = takeWhile (isDigit radix) t2;
          n = foldl (\<lambda>a c. a * int radix + int (the (digitVal c))) 0 ds
      in if ds = [] then NaN else Num (if neg then - n else n))"

text \<open>\<open>parseInt(value) > 0\<close>: every comparison with \<open>NaN\<close> is false.\<close>

fun gtZero :: "jsnum \<Rightarrow> bool" where
  "gtZero NaN = False"
| "gtZero (Num n) = (0 < n)"

section \<open>The parsed entities\<close>

text \<open>
  The parsers build \<open>Partial<T>\<close> objects and push them as they are, so every property is
  optional in the model: \<open>None\<close> is JavaScript's \<open>undefined\<close>.
\<close>

record EmailMessage =
  id_msg :: "string option"
  subject :: "string option"
  sender :: "string option"
  recipients :: "string list option"
  date :: "string option"
  read :: "bool option"
  flagged :: "bool option"
  mailbox :: "string option"
  account :: "string option"
  attachmentCount :: "jsnum option"
  hasAttachments :: "bool option"
  content :: "string option"

record Mailbox =
  name_mb :: "string option"
  account_mb :: "string option"
  unreadCount :: "jsnum option"
  totalCount :: "jsnum option"

record EmailAccount =
  name_acc :: "string option"
  email :: "string option"
  type_acc :: "string option"

record EmailAttachment =
  name_att :: "string option"

text \<open>The truthiness of an optional string: defined and not empty.\<close>

fun truthy :: "string option \<Rightarrow> bool" where
  "truthy None = False"
| "truthy (Some s) = (s \<noteq> [])"

section \<open>The response parsers\<close>

text \<open>\<open>output.split(start).filter(Boolean)\<close>.\<close>

definition blocksOf :: "string \<Rightarrow> string \<Rightarrow> string list" where
  "blocksOf start output = filterBoolean (split start output)"

text \<open>
  \<open>block.substring(0, block.indexOf(endMarker)).split('\n').filter(Boolean)\<close>;
  \<open>substring\<close> clamps the index \<open>-1\<close> to \<open>0\<close>.
\<close>

definition blockLines :: "string \<Rightarrow> string \<Rightarrow> string list" where
  "blockLines endMarker block =
     filterBoolean (split ''\<newline>''
       (case indexOf endMarker block of None \<Rightarrow> [] | Some i \<Rightarrow> take i block))"

text \<open>
  \<open>const [key, ...valueParts] = line.split(':'); const value = valueParts.join(':').trim()\<close>.
  \<open>split\<close> never returns the empty array; in that branch the key is the empty string, which
  like \<open>undefined\<close> matches no \<open>case\<close> label.
\<close>

definition keyValue :: "string \<Rightarrow> string \<times> string" where
  "keyValue line =
     (case split '':'' line of
        [] \<Rightarrow> ([], [])
      | key # valueParts \<Rightarrow> (key, trim (join '':'' valueParts)))"

text \<open>The key and value of every line of a block, in order.\<close>

definition blockFields :: "string \<Rightarrow> string \<Rightarrow> (string \<times> string) list" where
  "blockFields endMarker block = map keyValue (blockLines endMarker block)"

subsection \<open>Messages\<close>

definition emptyMessage :: EmailMessage where
  "emptyMessage =
     \<lparr>id_msg = None, subject = None, sender = None, recipients = None, date = None,
      read = None, flagged = None, mailbox = None, account = None,
      attachmentCount = None, hasAttachments = None, content = None\<rparr>"

text \<open>The \<open>switch (key)\<close> of \<open>parseEmailMessages\<close>.\<close>

definition assignMessage :: "EmailMessage \<Rightarrow> string \<times> string \<Rightarrow> EmailMessage" where
  "assignMessage message kv =
     (let key = fst kv; value = snd kv in
      if key = ''ID'' then message\<lparr>id_msg := Some value\<rparr>
      else if key = ''SUBJECT'' then message\<lparr>subject := Some value\<rparr>
      else if key = ''SENDER'' then message\<lparr>sender := Some value\<rparr>
      else if key = ''RECIPIENTS''
        then message\<lparr>recipients := Some (filterBoolean (split '','' value))\<rparr>
      else if key = ''DATE'' then message\<lparr>date := Some value\<rparr>
      else if key = ''READ'' then message\<lparr>read := Some (value = ''true'')\<rparr>
      else if key = ''FLAGGED'' then message\<lparr>flagged := Some (value = ''true'')\<rparr>
      else if key = ''MAILBOX'' then message\<lparr>mailbox := Some value\<rparr>
      else if key = ''ACCOUNT'' then message\<lparr>account := Some value\<rparr>
      else if key = ''ATTACHMENT_COUNT''
        then message\<lparr>attachmentCount := Some (parseInt value),
                     hasAttachments := Some (gtZero (parseInt value))\<rparr>
      else if key = ''CONTENT'' then message\<lparr>content := Some value\<rparr>
      else message)"

text \<open>
  The body of the loop over the blocks: \<open>None\<close> when the block is skipped (no end marker) or
  its record is not pushed.
\<close>

definition parseMessageBlock :: "string \<Rightarrow> EmailMessage option" where
  "parseMessageBlock block =
     (if \<not> includesStr ''MESSAGE_END'' block then None
      else let message = foldl assignMessage emptyMessage (blockFields ''MESSAGE_END'' block)
           in if truthy (id_msg message) \<and> truthy (subject message) then Some message
              else None)"

definition parseEmailMessages :: "string \<Rightarrow> EmailMessage list" where
  "parseEmailMessages output =
     foldl (\<lambda>messages block.
              case parseMessageBlock block of None \<Rightarrow> messages | Some m \<Rightarrow> messages @ [m])
       [] (blocksOf ''MESSAGE_START\<newline>'' output)"

subsection \<open>Mailboxes\<close>

definition emptyMailbox :: Mailbox where
  "emptyMailbox = \<lparr>name_mb = None, account_mb = None, unreadCount = None, totalCount = None\<rparr>"

definition assignMailbox :: "Mailbox \<Rightarrow> string \<times> string \<Rightarrow> Mailbox" where
  "assignMailbox mb kv =
     (let key = fst kv; value = snd kv in
      if key = ''NAME'' then mb\<lparr>name_mb := Some value\<rparr>
      else if key = ''ACCOUNT'' then mb\<lparr>account_mb := Some value\<rparr>
      else if key = ''UNREAD'' then mb\<lparr>unreadCount := Some (parseInt value)\<rparr>
      else if key = ''TOTAL'' then mb\<lparr>totalCount := Some (parseInt value)\<rparr>
      else mb)"

definition parseMailboxBlock :: "string \<Rightarrow> Mailbox option" where
  "parseMailboxBlock block =
     (if \<not> includesStr ''MAILBOX_END'' block then None
      else let mb = foldl assignMailbox emptyMailbox (blockFields ''MAILBOX_END'' block)
           in if truthy (name_mb mb) \<and> account_mb mb \<noteq> None then Some mb else None)"

definition parseMailboxes :: "string \<Rightarrow> Mailbox list" where
  "parseMailboxes output =
     foldl (\<lambda>mailboxes block.
              case parseMailboxBlock block of None \<Rightarrow> mailboxes | Some m \<Rightarrow> mailboxes @ [m])
       [] (blocksOf ''MAILBOX_START\<newline>'' output)"

subsection \<open>Accounts\<close>

definition emptyAccount :: EmailAccount where
  "emptyAccount = \<lparr>name_acc = None, email = Some [], type_acc = None\<rparr>"

definition assignAccount :: "EmailAccount \<Rightarrow> string \<times> string \<Rightarrow> EmailAccount" where
  "assignAccount acc kv =
     (let key = fst kv; value = snd kv in
      if key = ''NAME'' then acc\<lparr>name_acc := Some value\<rparr>
      else if key = ''TYPE'' then acc\<lparr>type_acc := Some value\<rparr>
      else acc)"

definition parseAccountBlock :: "string \<Rightarrow> EmailAccount option" where
  "parseAccountBlock block =
     (if \<not> includesStr ''ACCOUNT_END'' block then None
      else let acc = foldl assignAccount emptyAccount (blockFields ''ACCOUNT_END'' block)
           in if truthy (name_acc acc) \<and> truthy (type_acc acc) then Some acc else None)"

definition parseAccounts :: "string \<Rightarrow> EmailAccount list" where
  "parseAccounts output =
     foldl (\<lambda>accounts block.
              case parseAccountBlock block of None \<Rightarrow> accounts | Some a \<Rightarrow> accounts @ [a])
       [] (blocksOf ''ACCOUNT_START\<newline>'' output)"

subsection \<open>Attachments\<close>

definition emptyAttachment :: EmailAttachment where
  "emptyAttachment = \<lparr>name_att = None\<rparr>"

definition assignAttachment :: "EmailAttachment \<Rightarrow> string \<times> string \<Rightarrow> EmailAttachment" where
  "assignAttachment att kv =
     (let key = fst kv; value = snd kv in
      if key = ''NAME'' then att\<lparr>name_att := Some value\<rparr> else att)"

definition parseAttachmentBlock :: "string \<Rightarrow> EmailAttachment option" where
  "parseAttachmentBlock block =
     (if \<not> includesStr ''ATTACHMENT_END'' block then None
      else let att = foldl assignAttachment emptyAttachment
                       (blockFields ''ATTACHMENT_END'' block)
           in if truthy (name_att att) then Some att else None)"

definition parseAttachments :: "string \<Rightarrow> EmailAttachment list" where
  "parseAttachments output =
     foldl (\<lambda>attachments block.
              case parseAttachmentBlock block of None \<Rightarrow> attachments
              | Some a \<Rightarrow> attachments @ [a])
       [] (blocksOf ''ATTACHMENT_START\<newline>'' output)"

section \<open>The process invoker and the availability guard\<close>

text \<open>Characters that cannot be written inside a string literal, and the UTF-8 form of U+2265.\<close>

definition dquote :: string where "dquote = [CHR 0x22]"
definition squote :: string where "squote = [CHR 0x27]"
definition bslash :: string where "bslash = [CHR 0x5C]"
definition geqSign :: string where "geqSign = [CHR 0xE2, CHR 0x89, CHR 0xA5]"

text \<open>
  A value interpolated into a template literal: an omitted parameter prints as \<open>undefined\<close>.
\<close>

definition str :: "string option \<Rightarrow> string" where
  "str v = (case v of None \<Rightarrow> ''undefined'' | Some s \<Rightarrow> s)"

text \<open>A JavaScript \<open>Error\<close> with its message; \<open>Inl\<close> of it is a throw or a rejected promise.\<close>

datatype jsError = Error string

text \<open>
  What \<open>child_process\<close> reports. \<open>exec\<close> (promisified) either rejects with an \<open>Error\<close> (the
  command could not be run or exited with a non-zero code) or resolves with the captured
  standard output and standard error. A spawned process either emits \<open>error\<close> (it could not be
  started) or closes with an exit code (\<open>None\<close> is \<open>null\<close>, the process was killed by a signal)
  after its output has been collected.
\<close>

datatype execOutcome = ExecRejected string | ExecResolved string string

datatype spawnOutcome = SpawnError string | Closed "int option" string string

text \<open>
  The machine the server runs on: \<open>'w\<close> is the state of everything outside the program (the
  Mail application with its messages, the process table). Running a shell command line, or
  running \<open>osascript -\<close> with a script on its standard input, reports an outcome and may change
  that state.
\<close>

record 'w host =
  exec :: "string \<Rightarrow> 'w \<Rightarrow> execOutcome \<times> 'w"
  spawn :: "string \<Rightarrow> 'w \<Rightarrow> spawnOutcome \<times> 'w"

text \<open>Decimal digits of a number, as a template literal interpolates it.\<close>

fun showNat :: "nat \<Rightarrow> string" where
  "showNat n =
     (if n < 10 then [char_of (48 + n)] else showNat (n div 10) @ [char_of (48 + n mod 10)])"

definition showInt :: "int \<Rightarrow> string" where
  "showInt i = (if i < 0 then ''-'' @ showNat (nat (- i)) else showNat (nat i))"

definition showCode :: "int option \<Rightarrow> string" where
  "showCode code = (case code of None \<Rightarrow> ''null'' | Some c \<Rightarrow> showInt c)"

text \<open>
  \<open>escapeAppleScript\<close>: every single quote is replaced by the four characters quote,
  backslash, quote, quote, which end the shell's quoted word, add an escaped quote and open
  the quoted word again.
\<close>

definition escapeAppleScript :: "string \<Rightarrow> string" where
  "escapeAppleScript script =
     concat (map (\<lambda>c. if [c] = squote then squote @ bslash @ squote @ squote else [c]) script)"

text \<open>
  \<open>executeAppleScript\<close>: the script goes on the command line. Logging of standard error is
  not modelled.
\<close>

definition executeAppleScript :: "'w host \<Rightarrow> string \<Rightarrow> 'w \<Rightarrow> (jsError + string) \<times> 'w" where
  "executeAppleScript h script w =
     (case exec h (''osascript -e '' @ squote @ escapeAppleScript script @ squote) w of
        (ExecRejected msg, w') \<Rightarrow> (Inl (Error (''AppleScript execution failed: '' @ msg)), w')
      | (ExecResolved out err, w') \<Rightarrow> (Inr (trim out), w'))"

text \<open>\<open>executeAppleScriptFile\<close>: the script goes to the standard input of \<open>osascript -\<close>.\<close>

definition executeAppleScriptFile :: "'w host \<Rightarrow> string \<Rightarrow> 'w \<Rightarrow> (jsError + string) \<times> 'w" where
  "executeAppleScriptFile h script w =
     (case spawn h script w of
        (SpawnError msg, w') \<Rightarrow> (Inl (Error (''AppleScript execution failed: '' @ msg)), w')
      | (Closed code out err, w') \<Rightarrow>
          if code \<noteq> Some 0
          then (Inl (Error (''AppleScript execution failed with code '' @ showCode code
                             @ '': '' @ err)), w')
          else (Inr (trim out), w'))"

text \<open>
  \<open>result.toLowerCase()\<close> on the ASCII letters. No other code point lower-cases to one of the
  letters of \<open>true\<close>, so the comparison below is the one the source makes.
\<close>

definition toLowerCase :: "string \<Rightarrow> string" where
  "toLowerCase s =
     map (\<lambda>c. let n = (of_char c :: nat) in if 65 \<le> n \<and> n \<le> 90 then char_of (n + 32) else c) s"

definition isMailRunning :: "'w host \<Rightarrow> 'w \<Rightarrow> bool \<times> 'w" where
  "isMailRunning h w =
     (case executeAppleScript h
             (''tell application '' @ dquote @ ''System Events'' @ dquote @
              '' to (name of processes) contains '' @ dquote @ ''Mail'' @ dquote) w of
        (Inl e, w') \<Rightarrow> (False, w')
      | (Inr result, w') \<Rightarrow> (toLowerCase result = ''true'', w'))"

text \<open>
  \<open>ensureMailRunning\<close>. A failure of the \<open>activate\<close> script is not caught. The pause of one
  second after a successful activation is not modelled.
\<close>

definition ensureMailRunning :: "'w host \<Rightarrow> 'w \<Rightarrow> (jsError + unit) \<times> 'w" where
  "ensureMailRunning h w =
     (case isMailRunning h w of
        (running, w1) \<Rightarrow>
          if \<not> running
          then (case executeAppleScript h
                       (''tell application '' @ dquote @ ''Mail'' @ dquote @ '' to activate'') w1 of
                  (Inl e, w2) \<Rightarrow> (Inl e, w2)
                | (Inr r, w2) \<Rightarrow> (Inr (), w2))
          else (Inr (), w1))"

section \<open>The script builder and the operations\<close>

subsection \<open>Search\<close>

text \<open>The parameters of \<open>searchEmails\<close>; \<open>None\<close> is an omitted parameter.\<close>

record searchParams =
  query_s :: "string option"
  sender_s :: "string option"
  subject_s :: "string option"
  dateFrom_s :: "string option"
  dateTo_s :: "string option"
  mailbox_s :: "string option"
  account_s :: "string option"
  unreadOnly_s :: "bool option"
  limit_s :: "int option"

definition searchHead :: string where
  "searchHead =
     ''\<newline>'' @
     ''tell application '' @ dquote @ ''Mail'' @ dquote @ ''\<newline>'' @
     ''  set matchingMessages to {}\<newline>'' @
     ''  ''"

text \<open>The \<open>if\<close> chain that determines which mailbox to search.\<close>

definition searchSource :: "string option \<Rightarrow> string option \<Rightarrow> string" where
  "searchSource mailbox' account' =
     (if truthy mailbox' \<and> truthy account' then
        ''set targetMailbox to mailbox '' @ dquote @ str mailbox' @ dquote @
        '' of account '' @ dquote @ str account' @ dquote @ ''\<newline>'' @
        ''set allMessages to every message of targetMailbox\<newline>''
      else if truthy mailbox' then
        ''set targetMailbox to mailbox '' @ dquote @ str mailbox' @ dquote @ ''\<newline>'' @
        ''set allMessages to every message of targetMailbox\<newline>''
      else if truthy account' then
        ''set allMessages to every message of account '' @ dquote @ str account' @ dquote @ ''\<newline>''
      else
        ''set targetMailbox to inbox\<newline>'' @
        ''set allMessages to every message of targetMailbox\<newline>'')"

text \<open>The filter conditions, in the order in which they are pushed.\<close>

definition searchConditions :: "searchParams \<Rightarrow> string list" where
  "searchConditions p =
     (if truthy (query_s p) then
        [''((subject of aMessage contains '' @ dquote @ str (query_s p) @ dquote @
         '') or (content of aMessage contains '' @ dquote @ str (query_s p) @ dquote @
         ''))'']
      else [])
     @ (if truthy (sender_s p) then
        [''(sender of aMessage contains '' @ dquote @ str (sender_s p) @ dquote @ '')'']
      else [])
     @ (if truthy (subject_s p) then
        [''(subject of aMessage contains '' @ dquote @ str (subject_s p) @ dquote @ '')'']
      else [])
     @ (if unreadOnly_s p = Some True then
        [''(read status of aMessage is false)'']
      else [])"

definition searchFilter :: "string list \<Rightarrow> string" where
  "searchFilter conditions =
     (if length conditions > 0 then
        ''if '' @ join '' and '' conditions @ '' then\<newline>'' @
        ''set end of matchingMessages to aMessage\<newline>'' @
        ''end if\<newline>''
      else
        ''set end of matchingMessages to aMessage\<newline>'')"

definition searchTail :: string where
  "searchTail =
     ''\<newline>'' @
     ''  set output to '' @ dquote @ dquote @ ''\<newline>'' @
     ''  repeat with aMessage in matchingMessages\<newline>'' @
     ''    set msgId to id of aMessage as text\<newline>'' @
     ''    set msgSubject to subject of aMessage\<newline>'' @
     ''    set msgSender to sender of aMessage\<newline>'' @
     ''    set msgDate to date received of aMessage as text\<newline>'' @
     ''    set msgRead to read status of aMessage as text\<newline>'' @
     ''    set msgFlagged to flagged status of aMessage as text\<newline>'' @
     ''    set msgContent to content of aMessage\<newline>'' @
     ''    \<newline>'' @
     ''    set output to output & '' @ dquote @ ''MESSAGE_START'' @ bslash @ ''n'' @ dquote @ ''\<newline>'' @
     ''    set output to output & '' @ dquote @ ''ID:'' @ dquote @ '' & msgId & '' @ dquote @
     bslash @ ''n'' @ dquote @ ''\<newline>'' @
     ''    set output to output & '' @ dquote @ ''SUBJECT:'' @ dquote @ '' & msgSubject & '' @
     dquote @ bslash @ ''n'' @ dquote @ ''\<newline>'' @
     ''    set output to output & '' @ dquote @ ''SENDER:'' @ dquote @ '' & msgSender & '' @
     dquote @ bslash @ ''n'' @ dquote @ ''\<newline>'' @
     ''    set output to output & '' @ dquote @ ''DATE:'' @ dquote @ '' & msgDate & '' @
     dquote @ bslash @ ''n'' @ dquote @ ''\<newline>'' @
     ''    set output to output & '' @ dquote @ ''READ:'' @ dquote @ '' & msgRead & '' @
     dquote @ bslash @ ''n'' @ dquote @ ''\<newline>'' @
     ''    set output to output & '' @ dquote @ ''FLAGGED:'' @ dquote @ '' & msgFlagged & '' @
     dquote @ bslash @ ''n'' @ dquote @ ''\<newline>'' @
     ''    set output to output & '' @ dquote @ ''CONTENT:'' @ dquote @ '' & msgContent & '' @
     dquote @ bslash @ ''n'' @ dquote @ ''\<newline>'' @
     ''    set output to output & '' @ dquote @ ''MESSAGE_END'' @ bslash @ ''n'' @ dquote @ ''\<newline>'' @
     ''  end repeat\<newline>'' @
     ''  \<newline>'' @
     ''  return output\<newline>'' @
     ''end tell\<newline>'' @
     ''  ''"

text \<open>
  What follows the source selection: the loop with the filter and the limit, and the output
  formatting. \<open>limit\<close> defaults to 50; it is an integer (the input schema admits 1 to 100).
\<close>

definition searchBody :: "searchParams \<Rightarrow> string" where
  "searchBody p =
     ''repeat with aMessage in allMessages\<newline>'' @
     searchFilter (searchConditions p) @
     ''if (count of matchingMessages) '' @ geqSign @ '' '' @
     showInt (case limit_s p of None \<Rightarrow> 50 | Some l \<Rightarrow> l) @
     '' then exit repeat\<newline>'' @
     ''end repeat\<newline>'' @
     searchTail"

text \<open>The script of \<open>searchEmails\<close>.\<close>

definition searchScript :: "searchParams \<Rightarrow> string" where
  "searchScript p = searchHead @ searchSource (mailbox_s p) (account_s p) @ searchBody p"

definition searchEmails :: "'w host \<Rightarrow> searchParams \<Rightarrow> 'w \<Rightarrow> (jsError + EmailMessage list) \<times> 'w" where
  "searchEmails h p w =
     (case ensureMailRunning h w of
        (Inl e, w1) \<Rightarrow> (Inl e, w1)
      | (Inr u, w1) \<Rightarrow>
          (case executeAppleScriptFile h (searchScript p) w1 of
             (Inl e, w2) \<Rightarrow> (Inl e, w2)
           | (Inr result, w2) \<Rightarrow> (Inr (parseEmailMessages result), w2)))"

subsection \<open>Fetch by identifier\<close>

definition getEmailScript :: "string \<Rightarrow> string option \<Rightarrow> string option \<Rightarrow> string" where
  "getEmailScript messageId mailbox' account' =
     ''\<newline>'' @
     ''tell application '' @ dquote @ ''Mail'' @ dquote @ ''\<newline>'' @
     ''  '' @
     (if truthy mailbox' \<and> truthy account' then
        ''set msgs to (every message of mailbox '' @ dquote @ str mailbox' @ dquote @
        '' of account '' @ dquote @ str account' @ dquote @ '' whose id is '' @ messageId @
        '')\<newline>''
      else if truthy mailbox' then
        ''set msgs to (every message of mailbox '' @ dquote @ str mailbox' @ dquote @
        '' whose id is '' @ messageId @ '')\<newline>''
      else
        ''set msgs to (every message whose id is '' @ messageId @ '')\<newline>'') @
     ''\<newline>'' @
     ''  if (count of msgs) = 0 then\<newline>'' @
     ''    return '' @ dquote @ ''NOT_FOUND'' @ dquote @ ''\<newline>'' @
     ''  end if\<newline>'' @
     ''  \<newline>'' @
     ''  set aMessage to item 1 of msgs\<newline>'' @
     ''  set msgId to id of aMessage as text\<newline>'' @
     ''  set msgSubject to subject of aMessage\<newline>'' @
     ''  set msgSender to sender of aMessage\<newline>'' @
     ''  set msgDate to date received of aMessage as text\<newline>'' @
     ''  set msgRead to read status of aMessage as text\<newline>'' @
     ''  set msgFlagged to flagged status of aMessage as text\<newline>'' @
     ''  set msgContent to content of aMessage\<newline>'' @
     ''  set msgMailbox to name of mailbox of aMessage\<newline>'' @
     ''  set msgAccount to name of account of mailbox of aMessage\<newline>'' @
     ''  \<newline>'' @
     ''  set recipientList to '' @ dquote @ dquote @ ''\<newline>'' @
     ''  repeat with recip in to recipients of aMessage\<newline>'' @
     ''    set recipientList to recipientList & address of recip & '' @ dquote @ '','' @
     dquote @ ''\<newline>'' @
     ''  end repeat\<newline>'' @
     ''  \<newline>'' @
     ''  set attachCount to count of mail attachments of aMessage\<newline>'' @
     ''  \<newline>'' @
     ''  set output to '' @ dquote @ ''MESSAGE_START'' @ bslash @ ''n'' @ dquote @ ''\<newline>'' @
     ''  set output to output & '' @ dquote @ ''ID:'' @ dquote @ '' & msgId & '' @ dquote @
     bslash @ ''n'' @ dquote @ ''\<newline>'' @
     ''  set output to output & '' @ dquote @ ''SUBJECT:'' @ dquote @ '' & msgSubject & '' @
     dquote @ bslash @ ''n'' @ dquote @ ''\<newline>'' @
     ''  set output to output & '' @ dquote @ ''SENDER:'' @ dquote @ '' & msgSender & '' @
     dquote @ bslash @ ''n'' @ dquote @ ''\<newline>'' @
     ''  set output to output & '' @ dquote @ ''RECIPIENTS:'' @ dquote @
     '' & recipientList & '' @ dquote @ bslash @ ''n'' @ dquote @ ''\<newline>'' @
     ''  set output to output & '' @ dquote @ ''DATE:'' @ dquote @ '' & msgDate & '' @
     dquote @ bslash @ ''n'' @ dquote @ ''\<newline>'' @
     ''  set output to output & '' @ dquote @ ''READ:'' @ dquote @ '' & msgRead & '' @
     dquote @ bslash @ ''n'' @ dquote @ ''\<newline>'' @
     ''  set output to output & '' @ dquote @ ''FLAGGED:'' @ dquote @ '' & msgFlagged & '' @
     dquote @ bslash @ ''n'' @ dquote @ ''\<newline>'' @
     ''  set output to output & '' @ dquote @ ''MAILBOX:'' @ dquote @ '' & msgMailbox & '' @
     dquote @ bslash @ ''n'' @ dquote @ ''\<newline>'' @
     ''  set output to output & '' @ dquote @ ''ACCOUNT:'' @ dquote @ '' & msgAccount & '' @
     dquote @ bslash @ ''n'' @ dquote @ ''\<newline>'' @
     ''  set output to output & '' @ dquote @ ''ATTACHMENT_COUNT:'' @ dquote @
     '' & attachCount & '' @ dquote @ bslash @ ''n'' @ dquote @ ''\<newline>'' @
     ''  set output to output & '' @ dquote @ ''CONTENT:'' @ dquote @ '' & msgContent & '' @
     dquote @ bslash @ ''n'' @ dquote @ ''\<newline>'' @
     ''  set output to output & '' @ dquote @ ''MESSAGE_END'' @ bslash @ ''n'' @ dquote @ ''\<newline>'' @
     ''  \<newline>'' @
     ''  return output\<newline>'' @
     ''end tell\<newline>'' @
     ''  ''"

text \<open>\<open>emails[0] || null\<close>: a record is an object and therefore truthy.\<close>

definition getEmailById ::
  "'w host \<Rightarrow> string \<Rightarrow> string option \<Rightarrow> string option \<Rightarrow> 'w
     \<Rightarrow> (jsError + EmailMessage option) \<times> 'w" where
  "getEmailById h messageId mailbox' account' w =
     (case ensureMailRunning h w of
        (Inl e, w1) \<Rightarrow> (Inl e, w1)
      | (Inr u, w1) \<Rightarrow>
          (case executeAppleScriptFile h (getEmailScript messageId mailbox' account') w1 of
             (Inl e, w2) \<Rightarrow> (Inl e, w2)
           | (Inr result, w2) \<Rightarrow>
               if result = ''NOT_FOUND'' then (Inr None, w2)
               else (case parseEmailMessages result of
                       [] \<Rightarrow> (Inr None, w2)
                     | m # ms \<Rightarrow> (Inr (Some m), w2))))"

subsection \<open>Move and set-read-status\<close>

definition moveScript :: "string \<Rightarrow> string \<Rightarrow> string option \<Rightarrow> string" where
  "moveScript messageId targetMailbox targetAccount =
     ''\<newline>'' @
     ''tell application '' @ dquote @ ''Mail'' @ dquote @ ''\<newline>'' @
     ''  set theMessage to first message whose id is '' @ messageId @ ''\<newline>'' @
     ''  '' @
     (if truthy targetAccount then
        ''set targetBox to mailbox '' @ dquote @ targetMailbox @ dquote @ '' of account '' @
        dquote @ str targetAccount @ dquote @ ''\<newline>''
      else
        ''set targetBox to mailbox '' @ dquote @ targetMailbox @ dquote @ ''\<newline>'') @
     ''\<newline>'' @
     ''  set mailbox of theMessage to targetBox\<newline>'' @
     ''  return '' @ dquote @ ''SUCCESS'' @ dquote @ ''\<newline>'' @
     ''end tell\<newline>'' @
     ''  ''"

text \<open>\<open>moveEmail\<close>: the guard runs before the \<open>try\<close>; only the script execution is inside it.\<close>

definition moveEmail ::
  "'w host \<Rightarrow> string \<Rightarrow> string \<Rightarrow> string option \<Rightarrow> 'w \<Rightarrow> (jsError + bool) \<times> 'w" where
  "moveEmail h messageId targetMailbox targetAccount w =
     (case ensureMailRunning h w of
        (Inl e, w1) \<Rightarrow> (Inl e, w1)
      | (Inr u, w1) \<Rightarrow>
          (case executeAppleScriptFile h (moveScript messageId targetMailbox targetAccount) w1 of
             (Inl e, w2) \<Rightarrow> (Inr False, w2)
           | (Inr r, w2) \<Rightarrow> (Inr True, w2)))"

definition setReadScript :: "string \<Rightarrow> bool \<Rightarrow> string" where
  "setReadScript messageId read' =
     ''\<newline>'' @
     ''tell application '' @ dquote @ ''Mail'' @ dquote @ ''\<newline>'' @
     ''  set theMessage to first message whose id is '' @ messageId @ ''\<newline>'' @
     ''  set read status of theMessage to '' @ (if read' then ''true'' else ''false'') @ ''\<newline>'' @
     ''  return '' @ dquote @ ''SUCCESS'' @ dquote @ ''\<newline>'' @
     ''end tell\<newline>'' @
     ''  ''"

text \<open>\<open>setReadStatus\<close>, with the same structure.\<close>

definition setReadStatus :: "'w host \<Rightarrow> string \<Rightarrow> bool \<Rightarrow> 'w \<Rightarrow> (jsError + bool) \<times> 'w" where
  "setReadStatus h messageId read' w =
     (case ensureMailRunning h w of
        (Inl e, w1) \<Rightarrow> (Inl e, w1)
      | (Inr u, w1) \<Rightarrow>
          (case executeAppleScriptFile h (setReadScript messageId read') w1 of
             (Inl e, w2) \<Rightarrow> (Inr False, w2)
           | (Inr r, w2) \<Rightarrow> (Inr True, w2)))"

subsection \<open>Send\<close>

record DraftEmail =
  subject_d :: string
  to_d :: "string list"
  cc_d :: "string list option"
  bcc_d :: "string list option"
  content_d :: string
  account_d :: "string option"

record SendEmailResult =
  success :: bool
  messageId :: "string option"
  error :: "string option"

definition sendScript :: "DraftEmail \<Rightarrow> string" where
  "sendScript draft =
     ''\<newline>'' @
     ''tell application '' @ dquote @ ''Mail'' @ dquote @ ''\<newline>'' @
     ''  set newMessage to make new outgoing message with properties {subject:'' @ dquote @
     subject_d draft @ dquote @ '', content:'' @ dquote @ content_d draft @ dquote @
     '', visible:false}\<newline>'' @
     ''  \<newline>'' @
     ''  tell newMessage\<newline>'' @
     ''    '' @
     concat (map (\<lambda>addr.
       ''make new to recipient with properties {address:'' @ dquote @ addr @ dquote @
       ''}\<newline>'') (to_d draft)) @
     (case cc_d draft of None \<Rightarrow> [] | Some cc \<Rightarrow> concat (map (\<lambda>addr.
       ''make new cc recipient with properties {address:'' @ dquote @ addr @ dquote @
       ''}\<newline>'') cc)) @
     (case bcc_d draft of None \<Rightarrow> [] | Some bcc \<Rightarrow> concat (map (\<lambda>addr.
       ''make new bcc recipient with properties {address:'' @ dquote @ addr @ dquote @
       ''}\<newline>'') bcc)) @
     ''\<newline>'' @
     ''    send\<newline>'' @
     ''  end tell\<newline>'' @
     ''  \<newline>'' @
     ''  return id of newMessage as text\<newline>'' @
     ''end tell\<newline>'' @
     ''    ''"

text \<open>
  \<open>sendEmail\<close>: the guard runs before the \<open>try\<close>; building and running the script is inside
  it. Every rejection of \<open>executeAppleScriptFile\<close> is an \<open>Error\<close>, whose message is reported.
\<close>

definition sendEmail :: "'w host \<Rightarrow> DraftEmail \<Rightarrow> 'w \<Rightarrow> (jsError + SendEmailResult) \<times> 'w" where
  "sendEmail h draft w =
     (case ensureMailRunning h w of
        (Inl e, w1) \<Rightarrow> (Inl e, w1)
      | (Inr u, w1) \<Rightarrow>
          (case executeAppleScriptFile h (sendScript draft) w1 of
             (Inl (Error msg), w2) \<Rightarrow>
               (Inr \<lparr>success = False, messageId = None, error = Some msg\<rparr>, w2)
           | (Inr mid, w2) \<Rightarrow>
               (Inr \<lparr>success = True, messageId = Some mid, error = None\<rparr>, w2)))"

subsection \<open>Example machines\<close>

text \<open>
  A machine without state on which every command line has the outcome \<open>e\<close> and every piped
  script the outcome \<open>s\<close>.
\<close>

definition scriptedHost :: "execOutcome \<Rightarrow> spawnOutcome \<Rightarrow> unit host" where
  "scriptedHost e s = \<lparr>exec = (\<lambda>cmd w. (e, w)), spawn = (\<lambda>script w. (s, w))\<rparr>"

text \<open>
  A machine whose state is the read flag of every message of the Mail application. Mail is
  running; the set-read-status script for message 42 and the value \<open>true\<close> succeeds when the
  message exists and sets its flag; every other piped script fails.
\<close>

definition exampleMailHost :: "(string \<Rightarrow> bool option) host" where
  "exampleMailHost =
     \<lparr>exec = (\<lambda>cmd w. (ExecResolved ''true\<newline>'' [], w)),
      spawn = (\<lambda>script w.
        if script = setReadScript ''42'' True \<and> w ''42'' \<noteq> None
        then (Closed (Some 0) ''SUCCESS\<newline>'' [], w(''42'' \<mapsto> True))
        else (Closed (Some 1) [] ''execution error'', w))\<rparr>"

definition exampleStore :: "string \<Rightarrow> bool option" where
  "exampleStore = Map.empty(''42'' \<mapsto> False)"

definition exampleDraft :: DraftEmail where
  "exampleDraft =
     \<lparr>subject_d = ''Hi'', to_d = [''a@b.com''], cc_d = None, bcc_d = None,
      content_d = ''hello'', account_d = None\<rparr>"

definition exampleSearch :: "string option \<Rightarrow> string option \<Rightarrow> searchParams" where
  "exampleSearch mailbox' account' =
     \<lparr>query_s = None, sender_s = None, subject_s = None, dateFrom_s = None, dateTo_s = None,
      mailbox_s = mailbox', account_s = account', unreadOnly_s = None, limit_s = None\<rparr>"

section \<open>Blocks, lines and fields of a response text\<close>

text \<open>The value of the last pair with key \<open>key\<close>, if any.\<close>

definition lastValue :: "string \<Rightarrow> (string \<times> string) list \<Rightarrow> string option" where
  "lastValue key kvs =
     (let hits = filter (\<lambda>kv. fst kv = key) kvs
      in if hits = [] then None else Some (snd (last hits)))"

text \<open>
  A response text as the scripts write it: every line is followed by a line feed. An item is
  either a block (start marker line, one \<open>KEY:value\<close> line per field, end marker line) or a
  fragment (start marker line and field lines, but no end marker).
\<close>

definition unlines :: "string list \<Rightarrow> string" where
  "unlines ls = concat (map (\<lambda>l. l @ ''\<newline>'') ls)"

datatype item = Block "(string \<times> string) list" string | Fragment string

definition fieldLine :: "string \<times> string \<Rightarrow> string" where
  "fieldLine kv = fst kv @ '':'' @ snd kv"

text \<open>
  The text of an item behind its start marker line. A block is its field lines, the end marker
  and whatever follows the end marker (a line feed in the output of the scripts, nothing at the
  end of a trimmed response); a fragment is any text.
\<close>

fun segment :: "string \<Rightarrow> item \<Rightarrow> string" where
  "segment endMarker (Block fs rest) = unlines (map fieldLine fs) @ endMarker @ rest"
| "segment endMarker (Fragment t) = t"

definition render :: "string \<Rightarrow> string \<Rightarrow> item list \<Rightarrow> string" where
  "render startMarker endMarker items =
     concat (map (\<lambda>it. startMarker @ ''\<newline>'' @ segment endMarker it) items)"

text \<open>
  A field whose line can be read back: no line feed in key or value, no colon in the key, and
  no end marker anywhere in the line.
\<close>

definition cleanField :: "string \<Rightarrow> string \<times> string \<Rightarrow> bool" where
  "cleanField endMarker kv =
     (CHR ''\<newline>'' \<notin> set (fst kv) \<and> CHR ''\<newline>'' \<notin> set (snd kv) \<and> CHR '':'' \<notin> set (fst kv)
      \<and> \<not> includesStr endMarker (fieldLine kv))"

text \<open>A text that lacks the end marker and in which no start marker line begins.\<close>

definition danglingText :: "string \<Rightarrow> string \<Rightarrow> string \<Rightarrow> bool" where
  "danglingText startMarker endMarker t =
     (\<not> includesStr endMarker t \<and> \<not> includesStr (startMarker @ ''\<newline>'') t)"

text \<open>
  The items are what the split on the start marker line finds: no start marker line begins
  inside an item, the fields of a block are clean, and a fragment lacks the end marker.
\<close>

fun cleanItem :: "string \<Rightarrow> string \<Rightarrow> item \<Rightarrow> bool" where
  "cleanItem startMarker endMarker (Block fs rest) =
     (list_all (cleanField endMarker) fs
      \<and> \<not> includesStr (startMarker @ ''\<newline>'') (segment endMarker (Block fs rest)))"
| "cleanItem startMarker endMarker (Fragment t) = danglingText startMarker endMarker t"

definition cleanItems :: "string \<Rightarrow> string \<Rightarrow> item list \<Rightarrow> bool" where
  "cleanItems startMarker endMarker items = list_all (cleanItem startMarker endMarker) items"

text \<open>The trimmed value of the last field with the given key is a non-empty string.\<close>

definition hasValue :: "string \<Rightarrow> (string \<times> string) list \<Rightarrow> bool" where
  "hasValue key fs = truthy (map_option trim (lastValue key fs))"

text \<open>The blocks among the items whose fields satisfy \<open>req\<close>.\<close>

fun blockWith :: "((string \<times> string) list \<Rightarrow> bool) \<Rightarrow> item \<Rightarrow> bool" where
  "blockWith req (Block fs rest) = req fs"
| "blockWith req (Fragment t) = False"

text \<open>The blocks among the items, complete or not.\<close>

fun isBlock :: "item \<Rightarrow> bool" where
  "isBlock (Block fs rest) = True"
| "isBlock (Fragment t) = False"

text \<open>
  The required fields of each entity, read off the fields of a block: a non-empty value where
  the parser tests the value, a line with the key where it tests the key.
\<close>

definition messageRequired :: "(string \<times> string) list \<Rightarrow> bool" where
  "messageRequired fs = (hasValue ''ID'' fs \<and> hasValue ''SUBJECT'' fs)"

definition mailboxRequired :: "(string \<times> string) list \<Rightarrow> bool" where
  "mailboxRequired fs = (hasValue ''NAME'' fs \<and> ''ACCOUNT'' \<in> fst ` set fs)"

definition accountRequired :: "(string \<times> string) list \<Rightarrow> bool" where
  "accountRequired fs = (hasValue ''NAME'' fs \<and> hasValue ''TYPE'' fs)"

definition attachmentRequired :: "(string \<times> string) list \<Rightarrow> bool" where
  "attachmentRequired fs = hasValue ''NAME'' fs"

text \<open>
  A response as the invoker returns it, trimmed: a complete block, a fragment, a block without
  the required fields and a complete block whose end marker ends the text.
\<close>

definition exampleItems :: "item list" where
  "exampleItems =
     [Block [(''ID'', ''1''), (''SUBJECT'', ''Hi''), (''NAME'', ''Inbox''), (''ACCOUNT'', ''Work''),
             (''TYPE'', ''imap'')] ''\<newline>'',
      Fragment ''NAME:Lost\<newline>SUBJECT'',
      Block [(''UNREAD'', ''3'')] ''\<newline>'',
      Block [(''ID'', ''2''), (''SUBJECT'', ''Yo''), (''NAME'', ''Sent''), (''ACCOUNT'', []),
             (''TYPE'', ''imap'')] []]"

text \<open>A response with a message block that has no \<open>ID\<close> line and one that is complete.\<close>

definition twoMessages :: string where
  "twoMessages = ''MESSAGE_START\<newline>SUBJECT:Hi\<newline>SENDER:a@b.com\<newline>MESSAGE_END\<newline>MESSAGE_START\<newline>ID:1\<newline>SUBJECT:Yo\<newline>MESSAGE_END\<newline>''"

section \<open>Properties of the string operations\<close>

declare trimStart.simps [simp del] trimEnd.simps [simp del]

lemma unlines_Nil: "unlines [] = []" by (simp add: unlines_def)
lemma unlines_Cons: "unlines (l # ls) = l @ CHR ''\<newline>'' # unlines ls" by (simp add: unlines_def)
lemma unlines_append: "unlines (xs @ ys) = unlines xs @ unlines ys" by (simp add: unlines_def)

lemma includesStr_sublist: "includesStr pat s = sublist pat s"
  by (induction s) (auto simp: includesStr_def sublist_Cons_right)

lemma prefix_before_char:
  assumes "c \<notin> set pat" and "prefix pat (x @ c # rest)"
  shows "prefix pat x"
proof -
  from assms(2) consider "prefix pat x" | us where "pat = x @ us" "prefix us (c # rest)"
    by (auto simp: prefix_append)
  then show ?thesis
  proof cases
    case 1 then show ?thesis .
  next
    case 2
    with assms(1) have "us = []" by (cases us) auto
    with 2 show ?thesis by simp
  qed
qed

lemma no_border:
  assumes "c \<notin> set tok" and "tok @ [c] = x @ us" and "x \<noteq> []"
    and "prefix us (tok @ [c] @ r)"
  shows "us = []"
proof (rule ccontr)
  assume ne: "us \<noteq> []"
  from assms(2) ne have "last us = c"
    by (metis last_appendR last_snoc)
  with ne have cin: "c \<in> set us" by (metis last_in_set)
  from assms(2,3) have "length us \<le> length tok"
    by (cases x) (auto dest!: arg_cong[where f = length])
  with assms(4) have "prefix us tok"
    by (auto simp: prefix_append dest: prefix_length_le)
  then have "set us \<subseteq> set tok" by (rule set_mono_prefix)
  with cin assms(1) show False by blast
qed

lemma splitFrom_skip_segment:
  assumes "c \<notin> set tok" and "\<not> sublist (tok @ [c]) seg"
    and "rest = [] \<or> prefix (tok @ [c]) rest"
  shows "splitFrom (tok @ [c]) cur (seg @ rest) = splitFrom (tok @ [c]) (rev seg @ cur) rest"
  using assms
proof (induction seg arbitrary: cur)
  case Nil
  then show ?case by simp
next
  case (Cons d seg)
  have "\<not> prefix (tok @ [c]) ((d # seg) @ rest)"
  proof
    assume "prefix (tok @ [c]) ((d # seg) @ rest)"
    then have "prefix (tok @ [c]) (d # seg)
        \<or> (\<exists>us. tok @ [c] = (d # seg) @ us \<and> prefix us rest)"
      by (simp only: prefix_append)
    then consider "prefix (tok @ [c]) (d # seg)"
      | us where "tok @ [c] = (d # seg) @ us" "prefix us rest"
      by blast
    then show False
    proof cases
      case 1
      with Cons.prems(2) show False by auto
    next
      case 2
      have "us = []"
      proof (cases "rest = []")
        case True
        with 2 show ?thesis by simp
      next
        case False
        with Cons.prems(3) obtain r where "rest = tok @ [c] @ r"
          by (auto simp: prefix_def)
        with 2 show ?thesis
          using no_border[OF Cons.prems(1) 2(1), of r] by simp
      qed
      with 2 have "tok @ [c] = d # seg" by simp
      with Cons.prems(2) show False by simp
    qed
  qed
  moreover have "\<not> sublist (tok @ [c]) seg"
    using Cons.prems(2) by (auto simp: sublist_Cons_right)
  ultimately show ?case using Cons.IH[of "d # cur"] Cons.prems by simp
qed

lemma splitFrom_marker:
  "splitFrom (tok @ [c]) cur (tok @ c # rest) = rev cur # splitFrom (tok @ [c]) [] rest"
  by (cases tok) auto

lemma render_Nil: "render s e [] = []" by (simp add: render_def)
lemma render_Cons:
  "render s e (it # its) = s @ CHR ''\<newline>'' # (segment e it @ render s e its)"
  by (simp add: render_def)

lemma render_starts:
  "render s e items = [] \<or> prefix (s @ ''\<newline>'') (render s e items)"
  by (cases items) (simp_all add: render_Nil render_Cons)

lemma splitFrom_render:
  assumes "\<forall>it \<in> set items. \<not> sublist (s @ ''\<newline>'') (segment e it)"
    and "CHR ''\<newline>'' \<notin> set s"
  shows "splitFrom (s @ ''\<newline>'') cur (render s e items) = rev cur # map (segment e) items"
  using assms
proof (induction items arbitrary: cur)
  case Nil
  then show ?case by (simp add: render_Nil)
next
  case (Cons it its)
  have "splitFrom (s @ ''\<newline>'') cur (render s e (it # its))
          = rev cur # splitFrom (s @ ''\<newline>'') [] (segment e it @ render s e its)"
    by (simp only: render_Cons splitFrom_marker)
  also have "splitFrom (s @ ''\<newline>'') [] (segment e it @ render s e its)
          = splitFrom (s @ ''\<newline>'') (rev (segment e it) @ []) (render s e its)"
    using Cons.prems render_starts[of s e its] by (intro splitFrom_skip_segment) auto
  also have "\<dots> = segment e it # map (segment e) its"
    using Cons.IH[of "rev (segment e it) @ []"] Cons.prems by simp
  finally show ?case by simp
qed

lemma indexOf_skip_line:
  assumes "c \<notin> set pat" and "pat \<noteq> []" and "\<not> sublist pat l"
  shows "indexOf pat (l @ c # rest) = map_option (\<lambda>i. i + Suc (length l)) (indexOf pat rest)"
  using assms
proof (induction l)
  case Nil
  then show ?case by (cases pat) (auto simp: option.map_comp comp_def)
next
  case (Cons d l)
  have "\<not> prefix pat ((d # l) @ c # rest)"
    using Cons.prems prefix_before_char[of c pat "d # l" rest] by auto
  moreover have "\<not> sublist pat l" using Cons.prems by (auto simp: sublist_Cons_right)
  ultimately show ?case using Cons.IH Cons.prems
    by (simp add: option.map_comp comp_def)
qed

lemma indexOf_skip_lines:
  assumes "\<forall>l \<in> set ls. \<not> sublist pat l" and "CHR ''\<newline>'' \<notin> set pat" and "pat \<noteq> []"
  shows "indexOf pat (unlines ls @ rest) = map_option (\<lambda>i. i + length (unlines ls)) (indexOf pat rest)"
  using assms
proof (induction ls)
  case Nil
  then show ?case by (simp add: unlines_Nil option.map_ident)
next
  case (Cons l ls)
  then show ?case
    by (simp add: unlines_Cons indexOf_skip_line option.map_comp comp_def add.commute add.left_commute)
qed

lemma indexOf_prefix: "pat \<noteq> [] \<Longrightarrow> indexOf pat (pat @ rest) = Some 0"
  by (cases pat) auto

lemma splitFrom_char_none:
  "c \<notin> set l \<Longrightarrow> splitFrom [c] cur l = [rev cur @ l]"
  by (induction l arbitrary: cur) auto

lemma splitFrom_char_line:
  "c \<notin> set l \<Longrightarrow> splitFrom [c] cur (l @ c # rest) = (rev cur @ l) # splitFrom [c] [] rest"
  by (induction l arbitrary: cur) auto

lemma split_unlines:
  "\<forall>l \<in> set ls. CHR ''\<newline>'' \<notin> set l \<Longrightarrow> split ''\<newline>'' (unlines ls) = ls @ [[]]"
  by (induction ls) (auto simp: split_def unlines_Nil unlines_Cons splitFrom_char_line)

lemma splitFrom_nonempty: "splitFrom sep cur s \<noteq> []"
  by (induction sep cur s rule: splitFrom.induct) auto

lemma join_Cons: "ys \<noteq> [] \<Longrightarrow> join sep (x # ys) = x @ sep @ join sep ys"
  by (cases ys) auto

lemma join_splitFrom: "join [c] (splitFrom [c] cur s) = rev cur @ s"
  by (induction s arbitrary: cur) (auto simp: join_Cons splitFrom_nonempty)

lemma keyValue_fieldLine:
  "CHR '':'' \<notin> set (fst kv) \<Longrightarrow> keyValue (fieldLine kv) = (fst kv, trim (snd kv))"
  by (simp add: keyValue_def fieldLine_def split_def splitFrom_char_line join_splitFrom
           split: list.splits)


section \<open>Properties of the parsers\<close>

lemma lastValue_Nil: "lastValue key [] = None"
  by (simp add: lastValue_def)

lemma lastValue_snoc:
  "lastValue key (kvs @ [kv]) = (if fst kv = key then Some (snd kv) else lastValue key kvs)"
  by (simp add: lastValue_def Let_def)

lemma lastValue_None_iff: "lastValue key kvs = None \<longleftrightarrow> key \<notin> fst ` set kvs"
  by (induction kvs rule: rev_induct) (auto simp: lastValue_Nil lastValue_snoc)

lemma foldl_push:
  "foldl (\<lambda>acc b. case f b of None \<Rightarrow> acc | Some m \<Rightarrow> acc @ [m]) acc bs
     = acc @ List.map_filter f bs"
  by (induction bs arbitrary: acc) (auto split: option.splits)

lemma id_msg_foldl:
  "id_msg (foldl assignMessage emptyMessage kvs) = lastValue ''ID'' kvs"
  by (induction kvs rule: rev_induct)
     (auto simp: lastValue_Nil lastValue_snoc assignMessage_def emptyMessage_def Let_def)

lemma subject_foldl:
  "subject (foldl assignMessage emptyMessage kvs) = lastValue ''SUBJECT'' kvs"
  by (induction kvs rule: rev_induct)
     (auto simp: lastValue_Nil lastValue_snoc assignMessage_def emptyMessage_def Let_def)



lemma blocksOf_render:
  assumes "\<forall>it \<in> set items. \<not> sublist (s @ ''\<newline>'') (segment e it)"
    and "\<not> sublist (s @ ''\<newline>'') lead"
    and "CHR ''\<newline>'' \<notin> set s"
  shows "blocksOf (s @ ''\<newline>'') (lead @ render s e items)
           = filterBoolean (lead # map (segment e) items)"
proof -
  have "splitFrom (s @ ''\<newline>'') [] (lead @ render s e items)
          = splitFrom (s @ ''\<newline>'') (rev lead @ []) (render s e items)"
    using assms(2,3) render_starts[of s e items] by (intro splitFrom_skip_segment) auto
  also have "\<dots> = lead # map (segment e) items"
    using splitFrom_render[OF assms(1,3), of "rev lead @ []"] by simp
  finally show ?thesis by (simp add: blocksOf_def split_def)
qed

lemma block_end_index:
  assumes "list_all (cleanField e) fs" and "CHR ''\<newline>'' \<notin> set e" and "e \<noteq> []"
  shows "indexOf e (unlines (map fieldLine fs) @ e @ rest) = Some (length (unlines (map fieldLine fs)))"
proof -
  have "\<forall>l \<in> set (map fieldLine fs). \<not> sublist e l"
    using assms(1) by (auto simp: list_all_iff cleanField_def includesStr_sublist)
  from indexOf_skip_lines[OF this assms(2,3), of "e @ rest"] assms(3)
  show ?thesis by (simp add: indexOf_prefix)
qed

lemma blockFields_block:
  assumes "list_all (cleanField e) fs" and "CHR ''\<newline>'' \<notin> set e" and "e \<noteq> []"
  shows "blockFields e (unlines (map fieldLine fs) @ e @ rest)
           = map (\<lambda>kv. (fst kv, trim (snd kv))) fs"
proof -
  have nl: "\<forall>l \<in> set (map fieldLine fs). CHR ''\<newline>'' \<notin> set l"
    using assms(1) by (auto simp: list_all_iff cleanField_def fieldLine_def)
  have ne: "filterBoolean (map fieldLine fs @ [[]]) = map fieldLine fs"
    by (auto simp: filterBoolean_def fieldLine_def filter_id_conv)
  have kv: "keyValue (fieldLine x) = (fst x, trim (snd x))" if "x \<in> set fs" for x
    using assms(1) that by (intro keyValue_fieldLine) (auto simp: list_all_iff cleanField_def)
  show ?thesis
    unfolding blockFields_def blockLines_def block_end_index[OF assms]
    by (simp add: split_unlines[OF nl] ne kv)
qed

lemma blockFields_no_end: "\<not> includesStr e b \<Longrightarrow> blockFields e b = []"
  by (simp add: blockFields_def blockLines_def includesStr_def split_def filterBoolean_def)

lemma lastValue_map_trim:
  "lastValue key (map (\<lambda>kv. (fst kv, trim (snd kv))) fs) = map_option trim (lastValue key fs)"
  by (induction fs rule: rev_induct) (auto simp: lastValue_Nil lastValue_snoc)

lemma map_filter_filterBoolean:
  "f [] = None \<Longrightarrow> List.map_filter f (filterBoolean xs) = List.map_filter f xs"
  by (induction xs) (auto simp: filterBoolean_def split: option.splits)

lemma length_map_filter:
  "length (List.map_filter f xs) = length (filter (\<lambda>x. f x \<noteq> None) xs)"
  by (induction xs) (auto split: option.splits)

lemma name_mb_foldl:
  "name_mb (foldl assignMailbox emptyMailbox kvs) = lastValue ''NAME'' kvs"
  by (induction kvs rule: rev_induct)
     (auto simp: lastValue_Nil lastValue_snoc assignMailbox_def emptyMailbox_def Let_def)

lemma account_mb_foldl:
  "account_mb (foldl assignMailbox emptyMailbox kvs) = lastValue ''ACCOUNT'' kvs"
  by (induction kvs rule: rev_induct)
     (auto simp: lastValue_Nil lastValue_snoc assignMailbox_def emptyMailbox_def Let_def)

lemma name_acc_foldl:
  "name_acc (foldl assignAccount emptyAccount kvs) = lastValue ''NAME'' kvs"
  by (induction kvs rule: rev_induct)
     (auto simp: lastValue_Nil lastValue_snoc assignAccount_def emptyAccount_def Let_def)

lemma type_acc_foldl:
  "type_acc (foldl assignAccount emptyAccount kvs) = lastValue ''TYPE'' kvs"
  by (induction kvs rule: rev_induct)
     (auto simp: lastValue_Nil lastValue_snoc assignAccount_def emptyAccount_def Let_def)

lemma name_att_foldl:
  "name_att (foldl assignAttachment emptyAttachment kvs) = lastValue ''NAME'' kvs"
  by (induction kvs rule: rev_induct)
     (auto simp: lastValue_Nil lastValue_snoc assignAttachment_def emptyAttachment_def Let_def)

lemma parseMessageBlock_kept:
  "(parseMessageBlock b \<noteq> None) =
     (truthy (lastValue ''ID'' (blockFields ''MESSAGE_END'' b))
      \<and> truthy (lastValue ''SUBJECT'' (blockFields ''MESSAGE_END'' b)))"
  by (cases "includesStr ''MESSAGE_END'' b")
     (simp_all add: parseMessageBlock_def Let_def id_msg_foldl subject_foldl
        blockFields_no_end lastValue_Nil)

lemma parseMailboxBlock_kept:
  "(parseMailboxBlock b \<noteq> None) =
     (truthy (lastValue ''NAME'' (blockFields ''MAILBOX_END'' b))
      \<and> ''ACCOUNT'' \<in> fst ` set (blockFields ''MAILBOX_END'' b))"
  by (cases "includesStr ''MAILBOX_END'' b")
     (simp_all add: parseMailboxBlock_def Let_def name_mb_foldl account_mb_foldl
        blockFields_no_end lastValue_Nil lastValue_None_iff del: not_None_eq)

lemma parseAccountBlock_kept:
  "(parseAccountBlock b \<noteq> None) =
     (truthy (lastValue ''NAME'' (blockFields ''ACCOUNT_END'' b))
      \<and> truthy (lastValue ''TYPE'' (blockFields ''ACCOUNT_END'' b)))"
  by (cases "includesStr ''ACCOUNT_END'' b")
     (simp_all add: parseAccountBlock_def Let_def name_acc_foldl type_acc_foldl
        blockFields_no_end lastValue_Nil)

lemma parseAttachmentBlock_kept:
  "(parseAttachmentBlock b \<noteq> None) =
     truthy (lastValue ''NAME'' (blockFields ''ATTACHMENT_END'' b))"
  by (cases "includesStr ''ATTACHMENT_END'' b")
     (simp_all add: parseAttachmentBlock_def Let_def name_att_foldl
        blockFields_no_end lastValue_Nil)

lemma parseEmailMessages_blocks:
  "parseEmailMessages output
     = List.map_filter parseMessageBlock (blocksOf ''MESSAGE_START\<newline>'' output)"
  by (simp add: parseEmailMessages_def foldl_push)

lemma parseMailboxes_blocks:
  "parseMailboxes output
     = List.map_filter parseMailboxBlock (blocksOf ''MAILBOX_START\<newline>'' output)"
  by (simp add: parseMailboxes_def foldl_push)

lemma parseAccounts_blocks:
  "parseAccounts output
     = List.map_filter parseAccountBlock (blocksOf ''ACCOUNT_START\<newline>'' output)"
  by (simp add: parseAccounts_def foldl_push)

lemma parseAttachments_blocks:
  "parseAttachments output
     = List.map_filter parseAttachmentBlock (blocksOf ''ATTACHMENT_START\<newline>'' output)"
  by (simp add: parseAttachments_def foldl_push)

lemma render_count:
  assumes nls: "CHR ''\<newline>'' \<notin> set s" and nle: "CHR ''\<newline>'' \<notin> set e" and ene: "e \<noteq> []"
    and lead: "danglingText s e lead"
    and clean: "cleanItems s e items"
    and kept: "\<And>b. (f b \<noteq> None) = req (blockFields e b)"
    and reqNil: "\<not> req []"
    and reqTrim: "\<And>fs. req (map (\<lambda>kv. (fst kv, trim (snd kv))) fs) = req' fs"
  shows "length (List.map_filter f (blocksOf (s @ ''\<newline>'') (lead @ render s e items)))
           = length (filter (blockWith req') items)"
proof -
  have noend: "f b = None" if "\<not> includesStr e b" for b
    using kept[of b] that reqNil by (simp add: blockFields_no_end)
  have "\<not> includesStr e []" using ene by (simp add: includesStr_def)
  then have fNil: "f [] = None" by (rule noend)
  have fLead: "f lead = None" using lead by (simp add: danglingText_def noend)
  have each: "(f (segment e it) \<noteq> None) = blockWith req' it" if "it \<in> set items" for it
  proof -
    from clean that have ci: "cleanItem s e it"
      by (auto simp: cleanItems_def list_all_iff)
    show ?thesis
    proof (cases it)
      case (Block fs rest)
      with ci show ?thesis
        by (simp add: kept blockFields_block[OF _ nle ene] reqTrim del: not_None_eq)
    next
      case (Fragment t)
      with ci show ?thesis by (simp add: danglingText_def noend)
    qed
  qed
  have segs: "\<forall>it \<in> set items. \<not> sublist (s @ ''\<newline>'') (segment e it)"
  proof
    fix it assume "it \<in> set items"
    with clean have "cleanItem s e it" by (auto simp: cleanItems_def list_all_iff)
    then show "\<not> sublist (s @ ''\<newline>'') (segment e it)"
      by (cases it) (simp_all add: danglingText_def includesStr_sublist)
  qed
  have "\<not> sublist (s @ ''\<newline>'') lead"
    using lead by (simp add: danglingText_def includesStr_sublist)
  then have "blocksOf (s @ ''\<newline>'') (lead @ render s e items)
               = filterBoolean (lead # map (segment e) items)"
    by (rule blocksOf_render[OF segs _ nls])
  then have "length (List.map_filter f (blocksOf (s @ ''\<newline>'') (lead @ render s e items)))
        = length (filter (\<lambda>b. f b \<noteq> None) (map (segment e) items))"
    using fNil fLead by (simp add: map_filter_filterBoolean length_map_filter del: not_None_eq)
  also have "\<dots> = length (filter (\<lambda>it. f (segment e it) \<noteq> None) items)"
    by (simp add: filter_map comp_def del: not_None_eq)
  also have "filter (\<lambda>it. f (segment e it) \<noteq> None) items = filter (blockWith req') items"
    by (rule filter_cong) (simp_all add: each del: not_None_eq)
  finally show ?thesis .
qed

section \<open>The record count of the parsers\<close>

lemma keys_map_trim: "fst ` set (map (\<lambda>kv. (fst kv, trim (snd kv))) fs) = fst ` set fs"
  by (simp add: image_image)

lemma messages_count:
  assumes "danglingText ''MESSAGE_START'' ''MESSAGE_END'' lead" and "cleanItems ''MESSAGE_START'' ''MESSAGE_END'' items"
  shows "length (parseEmailMessages (lead @ render ''MESSAGE_START'' ''MESSAGE_END'' items))
           = length (filter (blockWith messageRequired) items)"
proof -
  have "length (List.map_filter parseMessageBlock
          (blocksOf (''MESSAGE_START'' @ ''\<newline>'') (lead @ render ''MESSAGE_START'' ''MESSAGE_END'' items)))
        = length (filter (blockWith messageRequired) items)"
    by (rule render_count[where req = "\<lambda>kvs. truthy (lastValue ''ID'' kvs) \<and> truthy (lastValue ''SUBJECT'' kvs)",
          OF _ _ _ assms])
       (simp_all add: parseMessageBlock_kept lastValue_Nil lastValue_map_trim hasValue_def
          messageRequired_def del: not_None_eq)
  then show ?thesis by (simp add: parseEmailMessages_blocks)
qed

lemma mailboxes_count:
  assumes "danglingText ''MAILBOX_START'' ''MAILBOX_END'' lead" and "cleanItems ''MAILBOX_START'' ''MAILBOX_END'' items"
  shows "length (parseMailboxes (lead @ render ''MAILBOX_START'' ''MAILBOX_END'' items))
           = length (filter (blockWith mailboxRequired) items)"
proof -
  have "length (List.map_filter parseMailboxBlock
          (blocksOf (''MAILBOX_START'' @ ''\<newline>'') (lead @ render ''MAILBOX_START'' ''MAILBOX_END'' items)))
        = length (filter (blockWith mailboxRequired) items)"
    by (rule render_count[where req = "\<lambda>kvs. truthy (lastValue ''NAME'' kvs) \<and> ''ACCOUNT'' \<in> fst ` set kvs",
          OF _ _ _ assms])
       (simp_all add: parseMailboxBlock_kept lastValue_Nil lastValue_map_trim hasValue_def
          mailboxRequired_def image_image del: not_None_eq)
  then show ?thesis by (simp add: parseMailboxes_blocks)
qed

lemma accounts_count:
  assumes "danglingText ''ACCOUNT_START'' ''ACCOUNT_END'' lead" and "cleanItems ''ACCOUNT_START'' ''ACCOUNT_END'' items"
  shows "length (parseAccounts (lead @ render ''ACCOUNT_START'' ''ACCOUNT_END'' items))
           = length (filter (blockWith accountRequired) items)"
proof -
  have "length (List.map_filter parseAccountBlock
          (blocksOf (''ACCOUNT_START'' @ ''\<newline>'') (lead @ render ''ACCOUNT_START'' ''ACCOUNT_END'' items)))
        = length (filter (blockWith accountRequired) items)"
    by (rule render_count[where req = "\<lambda>kvs. truthy (lastValue ''NAME'' kvs) \<and> truthy (lastValue ''TYPE'' kvs)",
          OF _ _ _ assms])
       (simp_all add: parseAccountBlock_kept lastValue_Nil lastValue_map_trim hasValue_def
          accountRequired_def del: not_None_eq)
  then show ?thesis by (simp add: parseAccounts_blocks)
qed

lemma attachments_count:
  assumes "danglingText ''ATTACHMENT_START'' ''ATTACHMENT_END'' lead" and "cleanItems ''ATTACHMENT_START'' ''ATTACHMENT_END'' items"
  shows "length (parseAttachments (lead @ render ''ATTACHMENT_START'' ''ATTACHMENT_END'' items))
           = length (filter (blockWith attachmentRequired) items)"
proof -
  have "length (List.map_filter parseAttachmentBlock
          (blocksOf (''ATTACHMENT_START'' @ ''\<newline>'') (lead @ render ''ATTACHMENT_START'' ''ATTACHMENT_END'' items)))
        = length (filter (blockWith attachmentRequired) items)"
    by (rule render_count[where req = "\<lambda>kvs. truthy (lastValue ''NAME'' kvs)",
          OF _ _ _ assms])
       (simp_all add: parseAttachmentBlock_kept lastValue_Nil lastValue_map_trim hasValue_def
          attachmentRequired_def del: not_None_eq)
  then show ?thesis by (simp add: parseAttachments_blocks)
qed

text \<open>
  Claim C1, as the code has it. Take any response text that consists of a leading text without
  markers (empty in the output of the scripts) and a sequence of items, each behind a start
  marker line: blocks, made of \<open>KEY:value\<close> lines, the end marker and anything after it (also
  nothing, as at the end of a trimmed response), and fragments, which are arbitrary texts
  lacking the end marker. Each of the four parsers returns exactly as many records as there
  are blocks carrying the entity's required fields; every fragment is dropped, and so is
  every block without its required fields. The text \<open>MAILBOX_START / NAME:Inbox\<close> without end
  marker yields no mailbox record.
\<close>

theorem parsers_count_complete_blocks:
  "(danglingText ''MESSAGE_START'' ''MESSAGE_END'' lead
      \<and> cleanItems ''MESSAGE_START'' ''MESSAGE_END'' items \<longrightarrow>
      length (parseEmailMessages (lead @ render ''MESSAGE_START'' ''MESSAGE_END'' items))
        = length (filter (blockWith messageRequired) items))
   \<and> (danglingText ''MAILBOX_START'' ''MAILBOX_END'' lead
      \<and> cleanItems ''MAILBOX_START'' ''MAILBOX_END'' items \<longrightarrow>
      length (parseMailboxes (lead @ render ''MAILBOX_START'' ''MAILBOX_END'' items))
        = length (filter (blockWith mailboxRequired) items))
   \<and> (danglingText ''ACCOUNT_START'' ''ACCOUNT_END'' lead
      \<and> cleanItems ''ACCOUNT_START'' ''ACCOUNT_END'' items \<longrightarrow>
      length (parseAccounts (lead @ render ''ACCOUNT_START'' ''ACCOUNT_END'' items))
        = length (filter (blockWith accountRequired) items))
   \<and> (danglingText ''ATTACHMENT_START'' ''ATTACHMENT_END'' lead
      \<and> cleanItems ''ATTACHMENT_START'' ''ATTACHMENT_END'' items \<longrightarrow>
      length (parseAttachments (lead @ render ''ATTACHMENT_START'' ''ATTACHMENT_END'' items))
        = length (filter (blockWith attachmentRequired) items))
   \<and> parseMailboxes ''MAILBOX_START\<newline>NAME:Inbox\<newline>'' = []"
proof -
  have "parseMailboxes ''MAILBOX_START\<newline>NAME:Inbox\<newline>'' = []" by code_simp
  then show ?thesis
    using messages_count mailboxes_count accounts_count attachments_count by blast
qed

theorem parsers_count_complete_blocks_witness:
  "danglingText ''MESSAGE_START'' ''MESSAGE_END'' []
   \<and> cleanItems ''MESSAGE_START'' ''MESSAGE_END'' exampleItems
   \<and> trim (render ''MESSAGE_START'' ''MESSAGE_END'' exampleItems)
       = render ''MESSAGE_START'' ''MESSAGE_END'' exampleItems
   \<and> length (parseEmailMessages (render ''MESSAGE_START'' ''MESSAGE_END'' exampleItems)) = 2
   \<and> danglingText ''MAILBOX_START'' ''MAILBOX_END'' []
   \<and> cleanItems ''MAILBOX_START'' ''MAILBOX_END'' exampleItems
   \<and> trim (render ''MAILBOX_START'' ''MAILBOX_END'' exampleItems)
       = render ''MAILBOX_START'' ''MAILBOX_END'' exampleItems
   \<and> length (parseMailboxes (render ''MAILBOX_START'' ''MAILBOX_END'' exampleItems)) = 2
   \<and> danglingText ''ACCOUNT_START'' ''ACCOUNT_END'' []
   \<and> cleanItems ''ACCOUNT_START'' ''ACCOUNT_END'' exampleItems
   \<and> trim (render ''ACCOUNT_START'' ''ACCOUNT_END'' exampleItems)
       = render ''ACCOUNT_START'' ''ACCOUNT_END'' exampleItems
   \<and> length (parseAccounts (render ''ACCOUNT_START'' ''ACCOUNT_END'' exampleItems)) = 2
   \<and> danglingText ''ATTACHMENT_START'' ''ATTACHMENT_END'' []
   \<and> cleanItems ''ATTACHMENT_START'' ''ATTACHMENT_END'' exampleItems
   \<and> trim (render ''ATTACHMENT_START'' ''ATTACHMENT_END'' exampleItems)
       = render ''ATTACHMENT_START'' ''ATTACHMENT_END'' exampleItems
   \<and> length (parseAttachments (render ''ATTACHMENT_START'' ''ATTACHMENT_END'' exampleItems)) = 2
   \<and> executeAppleScriptFile
       (scriptedHost (ExecResolved [] [])
          (Closed (Some 0) (render ''MAILBOX_START'' ''MAILBOX_END'' exampleItems @ ''\<newline>'') []))
       [] ()
     = (Inr (render ''MAILBOX_START'' ''MAILBOX_END'' exampleItems), ())"
proof -
  have x: "trim (render ''MAILBOX_START'' ''MAILBOX_END'' exampleItems @ ''\<newline>'')
             = render ''MAILBOX_START'' ''MAILBOX_END'' exampleItems"
    by code_simp
  have d: "danglingText ''MESSAGE_START'' ''MESSAGE_END'' []"
      "danglingText ''MAILBOX_START'' ''MAILBOX_END'' []"
      "danglingText ''ACCOUNT_START'' ''ACCOUNT_END'' []"
      "danglingText ''ATTACHMENT_START'' ''ATTACHMENT_END'' []"
    by code_simp+
  have c: "cleanItems ''MESSAGE_START'' ''MESSAGE_END'' exampleItems"
      "cleanItems ''MAILBOX_START'' ''MAILBOX_END'' exampleItems"
      "cleanItems ''ACCOUNT_START'' ''ACCOUNT_END'' exampleItems"
      "cleanItems ''ATTACHMENT_START'' ''ATTACHMENT_END'' exampleItems"
    by code_simp+
  have t: "trim (render ''MESSAGE_START'' ''MESSAGE_END'' exampleItems)
       = render ''MESSAGE_START'' ''MESSAGE_END'' exampleItems"
      "trim (render ''MAILBOX_START'' ''MAILBOX_END'' exampleItems)
       = render ''MAILBOX_START'' ''MAILBOX_END'' exampleItems"
      "trim (render ''ACCOUNT_START'' ''ACCOUNT_END'' exampleItems)
       = render ''ACCOUNT_START'' ''ACCOUNT_END'' exampleItems"
      "trim (render ''ATTACHMENT_START'' ''ATTACHMENT_END'' exampleItems)
       = render ''ATTACHMENT_START'' ''ATTACHMENT_END'' exampleItems"
    by code_simp+
  have k: "length (filter (blockWith messageRequired) exampleItems) = 2"
      "length (filter (blockWith mailboxRequired) exampleItems) = 2"
      "length (filter (blockWith accountRequired) exampleItems) = 2"
      "length (filter (blockWith attachmentRequired) exampleItems) = 2"
    by code_simp+
  from parsers_count_complete_blocks[of "[]" exampleItems] d c t k show ?thesis
    by (simp add: executeAppleScriptFile_def scriptedHost_def x)
qed

text \<open>
  Claim C1 as stated fails: a response consisting of one well-formed mailbox block (start
  marker line, a \<open>KEY:value\<close> line, end marker line) and no fragment yields no record, because
  the block has no \<open>NAME\<close> and no \<open>ACCOUNT\<close> field.
\<close>

theorem block_without_required_fields_counterexample:
  "cleanItems ''MAILBOX_START'' ''MAILBOX_END'' [Block [(''UNREAD'', ''3'')] ''\<newline>'']
   \<and> render ''MAILBOX_START'' ''MAILBOX_END'' [Block [(''UNREAD'', ''3'')] ''\<newline>'']
       = ''MAILBOX_START\<newline>UNREAD:3\<newline>MAILBOX_END\<newline>''
   \<and> length (filter isBlock [Block [(''UNREAD'', ''3'')] ''\<newline>'']) = 1
   \<and> length (parseMailboxes ''MAILBOX_START\<newline>UNREAD:3\<newline>MAILBOX_END\<newline>'') = 0"
  by code_simp

section \<open>Required fields, duplicate keys and empty values\<close>

lemma map_filter_filter_drop:
  "(\<And>x. \<not> P x \<Longrightarrow> f x = None) \<Longrightarrow> List.map_filter f (filter P xs) = List.map_filter f xs"
  by (induction xs) (auto split: option.splits)

lemma list_all_map_filter:
  "(\<And>x y. f x = Some y \<Longrightarrow> P y) \<Longrightarrow> list_all P (List.map_filter f xs)"
  by (induction xs) (auto split: option.splits)

lemma truthy_lastValue_key: "truthy (lastValue key kvs) \<Longrightarrow> key \<in> fst ` set kvs"
  using lastValue_None_iff[of key kvs] by (cases "lastValue key kvs") auto

lemma parseMessageBlock_Some:
  "parseMessageBlock b = Some m \<Longrightarrow> truthy (id_msg m) \<and> truthy (subject m)"
  by (auto simp: parseMessageBlock_def Let_def split: if_splits)

text \<open>
  Claim C3. For every response text, the output of \<open>parseEmailMessages\<close> is what the blocks
  with both an \<open>ID\<close> line and a \<open>SUBJECT\<close> line produce: a block lacking either line
  contributes nothing, whatever its other fields are. Every record in the output has a
  non-empty identifier and a non-empty subject, so no partial record is returned; the parser
  is a total function into lists, so no error is returned either.
\<close>

theorem message_block_without_id_or_subject_dropped:
  "parseEmailMessages output
     = List.map_filter parseMessageBlock
         (filter (\<lambda>b. ''ID'' \<in> fst ` set (blockFields ''MESSAGE_END'' b)
                     \<and> ''SUBJECT'' \<in> fst ` set (blockFields ''MESSAGE_END'' b))
            (blocksOf ''MESSAGE_START\<newline>'' output))
   \<and> list_all (\<lambda>m. truthy (id_msg m) \<and> truthy (subject m)) (parseEmailMessages output)"
proof
  have drop: "parseMessageBlock b = None"
    if "\<not> (''ID'' \<in> fst ` set (blockFields ''MESSAGE_END'' b)
           \<and> ''SUBJECT'' \<in> fst ` set (blockFields ''MESSAGE_END'' b))" for b
  proof (rule ccontr)
    assume "parseMessageBlock b \<noteq> None"
    then have "truthy (lastValue ''ID'' (blockFields ''MESSAGE_END'' b))"
      and "truthy (lastValue ''SUBJECT'' (blockFields ''MESSAGE_END'' b))"
      by (simp_all add: parseMessageBlock_kept del: not_None_eq)
    with that show False by (auto dest: truthy_lastValue_key)
  qed
  show "parseEmailMessages output
     = List.map_filter parseMessageBlock
         (filter (\<lambda>b. ''ID'' \<in> fst ` set (blockFields ''MESSAGE_END'' b)
                     \<and> ''SUBJECT'' \<in> fst ` set (blockFields ''MESSAGE_END'' b))
            (blocksOf ''MESSAGE_START\<newline>'' output))"
    unfolding parseEmailMessages_blocks
    by (rule map_filter_filter_drop[symmetric]) (rule drop)
next
  show "list_all (\<lambda>m. truthy (id_msg m) \<and> truthy (subject m)) (parseEmailMessages output)"
    unfolding parseEmailMessages_blocks
    by (rule list_all_map_filter) (rule parseMessageBlock_Some)
qed

theorem message_block_without_id_or_subject_dropped_witness:
  "filter (\<lambda>b. ''ID'' \<in> fst ` set (blockFields ''MESSAGE_END'' b)
               \<and> ''SUBJECT'' \<in> fst ` set (blockFields ''MESSAGE_END'' b))
     (blocksOf ''MESSAGE_START\<newline>'' twoMessages) = [''ID:1\<newline>SUBJECT:Yo\<newline>MESSAGE_END\<newline>'']
   \<and> parseEmailMessages twoMessages
     = List.map_filter parseMessageBlock [''ID:1\<newline>SUBJECT:Yo\<newline>MESSAGE_END\<newline>'']
   \<and> parseEmailMessages twoMessages = [emptyMessage\<lparr>id_msg := Some ''1'', subject := Some ''Yo''\<rparr>]"
proof -
  have f: "filter (\<lambda>b. ''ID'' \<in> fst ` set (blockFields ''MESSAGE_END'' b)
               \<and> ''SUBJECT'' \<in> fst ` set (blockFields ''MESSAGE_END'' b))
     (blocksOf ''MESSAGE_START\<newline>'' twoMessages) = [''ID:1\<newline>SUBJECT:Yo\<newline>MESSAGE_END\<newline>'']"
    by code_simp
  have e: "parseEmailMessages twoMessages = [emptyMessage\<lparr>id_msg := Some ''1'', subject := Some ''Yo''\<rparr>]"
    by code_simp
  from message_block_without_id_or_subject_dropped[of twoMessages] f e show ?thesis by simp
qed

lemma foldl_assignMessage:
  "foldl assignMessage emptyMessage kvs =
     \<lparr>id_msg = lastValue ''ID'' kvs,
      subject = lastValue ''SUBJECT'' kvs,
      sender = lastValue ''SENDER'' kvs,
      recipients = map_option (\<lambda>v. filterBoolean (split '','' v)) (lastValue ''RECIPIENTS'' kvs),
      date = lastValue ''DATE'' kvs,
      read = map_option (\<lambda>v. v = ''true'') (lastValue ''READ'' kvs),
      flagged = map_option (\<lambda>v. v = ''true'') (lastValue ''FLAGGED'' kvs),
      mailbox = lastValue ''MAILBOX'' kvs,
      account = lastValue ''ACCOUNT'' kvs,
      attachmentCount = map_option parseInt (lastValue ''ATTACHMENT_COUNT'' kvs),
      hasAttachments = map_option (\<lambda>v. gtZero (parseInt v)) (lastValue ''ATTACHMENT_COUNT'' kvs),
      content = lastValue ''CONTENT'' kvs\<rparr>"
  by (induction kvs rule: rev_induct)
     (auto simp: lastValue_Nil lastValue_snoc assignMessage_def emptyMessage_def Let_def)

lemma foldl_assignMailbox:
  "foldl assignMailbox emptyMailbox kvs =
     \<lparr>name_mb = lastValue ''NAME'' kvs,
      account_mb = lastValue ''ACCOUNT'' kvs,
      unreadCount = map_option parseInt (lastValue ''UNREAD'' kvs),
      totalCount = map_option parseInt (lastValue ''TOTAL'' kvs)\<rparr>"
  by (induction kvs rule: rev_induct)
     (auto simp: lastValue_Nil lastValue_snoc assignMailbox_def emptyMailbox_def Let_def)

lemma foldl_assignAccount:
  "foldl assignAccount emptyAccount kvs =
     \<lparr>name_acc = lastValue ''NAME'' kvs, email = Some [], type_acc = lastValue ''TYPE'' kvs\<rparr>"
  by (induction kvs rule: rev_induct)
     (auto simp: lastValue_Nil lastValue_snoc assignAccount_def emptyAccount_def Let_def)

lemma foldl_assignAttachment:
  "foldl assignAttachment emptyAttachment kvs = \<lparr>name_att = lastValue ''NAME'' kvs\<rparr>"
  by (induction kvs rule: rev_induct)
     (auto simp: lastValue_Nil lastValue_snoc assignAttachment_def emptyAttachment_def Let_def)

text \<open>
  Claim C7. For every block, each property of the record built from it is determined by the
  last line carrying the property's key (\<open>lastValue\<close>), in all four parsers; an earlier line
  with the same key has no influence. A message block with the lines \<open>READ:true\<close> and then
  \<open>READ:false\<close> parses with \<open>read\<close> equal to \<open>false\<close>.
\<close>

theorem last_occurrence_of_key_wins:
  "parseMessageBlock b =
     (let kvs = blockFields ''MESSAGE_END'' b in
      if truthy (lastValue ''ID'' kvs) \<and> truthy (lastValue ''SUBJECT'' kvs)
      then Some
        \<lparr>id_msg = lastValue ''ID'' kvs,
         subject = lastValue ''SUBJECT'' kvs,
         sender = lastValue ''SENDER'' kvs,
         recipients = map_option (\<lambda>v. filterBoolean (split '','' v)) (lastValue ''RECIPIENTS'' kvs),
         date = lastValue ''DATE'' kvs,
         read = map_option (\<lambda>v. v = ''true'') (lastValue ''READ'' kvs),
         flagged = map_option (\<lambda>v. v = ''true'') (lastValue ''FLAGGED'' kvs),
         mailbox = lastValue ''MAILBOX'' kvs,
         account = lastValue ''ACCOUNT'' kvs,
         attachmentCount = map_option parseInt (lastValue ''ATTACHMENT_COUNT'' kvs),
         hasAttachments = map_option (\<lambda>v. gtZero (parseInt v)) (lastValue ''ATTACHMENT_COUNT'' kvs),
         content = lastValue ''CONTENT'' kvs\<rparr>
      else None)
   \<and> parseMailboxBlock b =
     (let kvs = blockFields ''MAILBOX_END'' b in
      if truthy (lastValue ''NAME'' kvs) \<and> lastValue ''ACCOUNT'' kvs \<noteq> None
      then Some
        \<lparr>name_mb = lastValue ''NAME'' kvs,
         account_mb = lastValue ''ACCOUNT'' kvs,
         unreadCount = map_option parseInt (lastValue ''UNREAD'' kvs),
         totalCount = map_option parseInt (lastValue ''TOTAL'' kvs)\<rparr>
      else None)
   \<and> parseAccountBlock b =
     (let kvs = blockFields ''ACCOUNT_END'' b in
      if truthy (lastValue ''NAME'' kvs) \<and> truthy (lastValue ''TYPE'' kvs)
      then Some \<lparr>name_acc = lastValue ''NAME'' kvs, email = Some [],
                  type_acc = lastValue ''TYPE'' kvs\<rparr>
      else None)
   \<and> parseAttachmentBlock b =
     (let kvs = blockFields ''ATTACHMENT_END'' b in
      if truthy (lastValue ''NAME'' kvs) then Some \<lparr>name_att = lastValue ''NAME'' kvs\<rparr>
      else None)
   \<and> map read (parseEmailMessages
        ''MESSAGE_START\<newline>ID:1\<newline>SUBJECT:Hi\<newline>READ:true\<newline>READ:false\<newline>MESSAGE_END\<newline>'')
       = [Some False]"
proof (intro conjI)
  show "parseMessageBlock b =
     (let kvs = blockFields ''MESSAGE_END'' b in
      if truthy (lastValue ''ID'' kvs) \<and> truthy (lastValue ''SUBJECT'' kvs)
      then Some
        \<lparr>id_msg = lastValue ''ID'' kvs,
         subject = lastValue ''SUBJECT'' kvs,
         sender = lastValue ''SENDER'' kvs,
         recipients = map_option (\<lambda>v. filterBoolean (split '','' v)) (lastValue ''RECIPIENTS'' kvs),
         date = lastValue ''DATE'' kvs,
         read = map_option (\<lambda>v. v = ''true'') (lastValue ''READ'' kvs),
         flagged = map_option (\<lambda>v. v = ''true'') (lastValue ''FLAGGED'' kvs),
         mailbox = lastValue ''MAILBOX'' kvs,
         account = lastValue ''ACCOUNT'' kvs,
         attachmentCount = map_option parseInt (lastValue ''ATTACHMENT_COUNT'' kvs),
         hasAttachments = map_option (\<lambda>v. gtZero (parseInt v)) (lastValue ''ATTACHMENT_COUNT'' kvs),
         content = lastValue ''CONTENT'' kvs\<rparr>
      else None)"
    by (cases "includesStr ''MESSAGE_END'' b")
       (simp_all add: parseMessageBlock_def Let_def foldl_assignMessage blockFields_no_end
          lastValue_Nil)
  show "parseMailboxBlock b =
     (let kvs = blockFields ''MAILBOX_END'' b in
      if truthy (lastValue ''NAME'' kvs) \<and> lastValue ''ACCOUNT'' kvs \<noteq> None
      then Some
        \<lparr>name_mb = lastValue ''NAME'' kvs,
         account_mb = lastValue ''ACCOUNT'' kvs,
         unreadCount = map_option parseInt (lastValue ''UNREAD'' kvs),
         totalCount = map_option parseInt (lastValue ''TOTAL'' kvs)\<rparr>
      else None)"
    by (cases "includesStr ''MAILBOX_END'' b")
       (simp_all add: parseMailboxBlock_def Let_def foldl_assignMailbox blockFields_no_end
          lastValue_Nil)
  show "parseAccountBlock b =
     (let kvs = blockFields ''ACCOUNT_END'' b in
      if truthy (lastValue ''NAME'' kvs) \<and> truthy (lastValue ''TYPE'' kvs)
      then Some \<lparr>name_acc = lastValue ''NAME'' kvs, email = Some [],
                  type_acc = lastValue ''TYPE'' kvs\<rparr>
      else None)"
    by (cases "includesStr ''ACCOUNT_END'' b")
       (simp_all add: parseAccountBlock_def Let_def foldl_assignAccount blockFields_no_end
          lastValue_Nil)
  show "parseAttachmentBlock b =
     (let kvs = blockFields ''ATTACHMENT_END'' b in
      if truthy (lastValue ''NAME'' kvs) then Some \<lparr>name_att = lastValue ''NAME'' kvs\<rparr>
      else None)"
    by (cases "includesStr ''ATTACHMENT_END'' b")
       (simp_all add: parseAttachmentBlock_def Let_def foldl_assignAttachment blockFields_no_end
          lastValue_Nil)
  show "map read (parseEmailMessages
        ''MESSAGE_START\<newline>ID:1\<newline>SUBJECT:Hi\<newline>READ:true\<newline>READ:false\<newline>MESSAGE_END\<newline>'')
       = [Some False]"
    by code_simp
qed

text \<open>
  Claim C8. A mailbox block is emitted exactly when its name is present, which the code
  tests by truthiness (the last \<open>NAME\<close> line has a non-empty trimmed value), and a line with
  the key \<open>ACCOUNT\<close> occurs in the block, whatever its value; the number of records of
  \<open>parseMailboxes\<close> is the number of such blocks. An \<open>ACCOUNT\<close> line with the empty value is
  kept, with account \<open>""\<close>; a block without an \<open>ACCOUNT\<close> line is dropped.
\<close>

theorem mailbox_kept_iff_name_and_account_key:
  "(parseMailboxBlock b \<noteq> None)
     = (truthy (lastValue ''NAME'' (blockFields ''MAILBOX_END'' b))
        \<and> ''ACCOUNT'' \<in> fst ` set (blockFields ''MAILBOX_END'' b))
   \<and> length (parseMailboxes output)
     = length (filter (\<lambda>b. truthy (lastValue ''NAME'' (blockFields ''MAILBOX_END'' b))
                            \<and> ''ACCOUNT'' \<in> fst ` set (blockFields ''MAILBOX_END'' b))
                 (blocksOf ''MAILBOX_START\<newline>'' output))
   \<and> parseMailboxes ''MAILBOX_START\<newline>NAME:Inbox\<newline>ACCOUNT:\<newline>MAILBOX_END\<newline>''
     = [\<lparr>name_mb = Some ''Inbox'', account_mb = Some [], unreadCount = None, totalCount = None\<rparr>]
   \<and> parseMailboxes ''MAILBOX_START\<newline>NAME:Inbox\<newline>UNREAD:2\<newline>MAILBOX_END\<newline>'' = []"
proof (intro conjI)
  show "(parseMailboxBlock b \<noteq> None)
     = (truthy (lastValue ''NAME'' (blockFields ''MAILBOX_END'' b))
        \<and> ''ACCOUNT'' \<in> fst ` set (blockFields ''MAILBOX_END'' b))"
    by (rule parseMailboxBlock_kept)
  show "length (parseMailboxes output)
     = length (filter (\<lambda>b. truthy (lastValue ''NAME'' (blockFields ''MAILBOX_END'' b))
                            \<and> ''ACCOUNT'' \<in> fst ` set (blockFields ''MAILBOX_END'' b))
                 (blocksOf ''MAILBOX_START\<newline>'' output))"
    by (simp add: parseMailboxes_blocks length_map_filter parseMailboxBlock_kept
          del: not_None_eq)
  show "parseMailboxes ''MAILBOX_START\<newline>NAME:Inbox\<newline>ACCOUNT:\<newline>MAILBOX_END\<newline>''
     = [\<lparr>name_mb = Some ''Inbox'', account_mb = Some [], unreadCount = None, totalCount = None\<rparr>]"
    by code_simp
  show "parseMailboxes ''MAILBOX_START\<newline>NAME:Inbox\<newline>UNREAD:2\<newline>MAILBOX_END\<newline>'' = []"
    by code_simp
qed

lemma truthy_not_empty: "truthy v \<Longrightarrow> v \<noteq> Some []"
  by (cases v) auto

text \<open>
  Claim C10. For every response text, a message block whose \<open>ID\<close> or \<open>SUBJECT\<close> value (that
  of the last such line, trimmed) is the empty string contributes nothing to the output of
  \<open>parseEmailMessages\<close>: the lines \<open>ID:\<close> and \<open>SUBJECT:\<close> followed by blanks are examples. A
  mailbox block with an empty \<open>ACCOUNT\<close> value is kept.
\<close>

theorem message_with_empty_id_or_subject_dropped:
  "parseEmailMessages output
     = List.map_filter parseMessageBlock
         (filter (\<lambda>b. lastValue ''ID'' (blockFields ''MESSAGE_END'' b) \<noteq> Some []
                     \<and> lastValue ''SUBJECT'' (blockFields ''MESSAGE_END'' b) \<noteq> Some [])
            (blocksOf ''MESSAGE_START\<newline>'' output))
   \<and> parseEmailMessages ''MESSAGE_START\<newline>ID:\<newline>SUBJECT:Hi\<newline>MESSAGE_END\<newline>'' = []
   \<and> parseEmailMessages ''MESSAGE_START\<newline>ID:7\<newline>SUBJECT:  \<newline>MESSAGE_END\<newline>'' = []
   \<and> parseMailboxes ''MAILBOX_START\<newline>NAME:Inbox\<newline>ACCOUNT:\<newline>MAILBOX_END\<newline>''
     = [\<lparr>name_mb = Some ''Inbox'', account_mb = Some [], unreadCount = None, totalCount = None\<rparr>]"
proof (intro conjI)
  have drop: "parseMessageBlock b = None"
    if "\<not> (lastValue ''ID'' (blockFields ''MESSAGE_END'' b) \<noteq> Some []
           \<and> lastValue ''SUBJECT'' (blockFields ''MESSAGE_END'' b) \<noteq> Some [])" for b
  proof (rule ccontr)
    assume "parseMessageBlock b \<noteq> None"
    then have "truthy (lastValue ''ID'' (blockFields ''MESSAGE_END'' b))"
      and "truthy (lastValue ''SUBJECT'' (blockFields ''MESSAGE_END'' b))"
      by (simp_all add: parseMessageBlock_kept del: not_None_eq)
    with that show False by (auto dest: truthy_not_empty)
  qed
  show "parseEmailMessages output
     = List.map_filter parseMessageBlock
         (filter (\<lambda>b. lastValue ''ID'' (blockFields ''MESSAGE_END'' b) \<noteq> Some []
                     \<and> lastValue ''SUBJECT'' (blockFields ''MESSAGE_END'' b) \<noteq> Some [])
            (blocksOf ''MESSAGE_START\<newline>'' output))"
    unfolding parseEmailMessages_blocks
    by (rule map_filter_filter_drop[symmetric]) (rule drop)
  show "parseEmailMessages ''MESSAGE_START\<newline>ID:\<newline>SUBJECT:Hi\<newline>MESSAGE_END\<newline>'' = []"
    by code_simp
  show "parseEmailMessages ''MESSAGE_START\<newline>ID:7\<newline>SUBJECT:  \<newline>MESSAGE_END\<newline>'' = []"
    by code_simp
  show "parseMailboxes ''MAILBOX_START\<newline>NAME:Inbox\<newline>ACCOUNT:\<newline>MAILBOX_END\<newline>''
     = [\<lparr>name_mb = Some ''Inbox'', account_mb = Some [], unreadCount = None, totalCount = None\<rparr>]"
    by code_simp
qed


section \<open>The script builder and the operations: properties\<close>

lemma trim_true: "trim ''true\<newline>'' = ''true''" by code_simp
lemma lower_true: "toLowerCase ''true'' = ''true''" by code_simp

text \<open>
  Claim C2. The script of the search operation consists of the fixed head, the source
  selection and the body, and the selection follows the precedence of the claim. A parameter
  counts as given when it is a non-empty string (the source tests \<open>mailbox && account\<close>, so
  an empty string counts as omitted). Both given: the named mailbox of the named account;
  mailbox only: the named mailbox; account only: every message of the named account; neither:
  the inbox.
\<close>

theorem search_source_precedence:
  "(mailbox_s p = Some m \<and> m \<noteq> [] \<and> account_s p = Some a \<and> a \<noteq> [] \<longrightarrow>
      searchScript p = searchHead
        @ ''set targetMailbox to mailbox '' @ dquote @ m @ dquote @ '' of account '' @ dquote @ a
        @ dquote @ ''\<newline>set allMessages to every message of targetMailbox\<newline>''
        @ searchBody p)
   \<and> (mailbox_s p = Some m \<and> m \<noteq> [] \<and> \<not> truthy (account_s p) \<longrightarrow>
      searchScript p = searchHead
        @ ''set targetMailbox to mailbox '' @ dquote @ m @ dquote
        @ ''\<newline>set allMessages to every message of targetMailbox\<newline>''
        @ searchBody p)
   \<and> (\<not> truthy (mailbox_s p) \<and> account_s p = Some a \<and> a \<noteq> [] \<longrightarrow>
      searchScript p = searchHead
        @ ''set allMessages to every message of account '' @ dquote @ a @ dquote @ ''\<newline>''
        @ searchBody p)
   \<and> (\<not> truthy (mailbox_s p) \<and> \<not> truthy (account_s p) \<longrightarrow>
      searchScript p = searchHead
        @ ''set targetMailbox to inbox\<newline>set allMessages to every message of targetMailbox\<newline>''
        @ searchBody p)"
  by (simp add: searchScript_def searchSource_def str_def)

theorem search_source_precedence_witness:
  "searchScript (exampleSearch (Some ''Archive'') (Some ''Work'')) = searchHead
        @ ''set targetMailbox to mailbox '' @ dquote @ ''Archive'' @ dquote @ '' of account ''
        @ dquote @ ''Work'' @ dquote
        @ ''\<newline>set allMessages to every message of targetMailbox\<newline>''
        @ searchBody (exampleSearch (Some ''Archive'') (Some ''Work''))
   \<and> searchScript (exampleSearch (Some ''Archive'') None) = searchHead
        @ ''set targetMailbox to mailbox '' @ dquote @ ''Archive'' @ dquote
        @ ''\<newline>set allMessages to every message of targetMailbox\<newline>''
        @ searchBody (exampleSearch (Some ''Archive'') None)
   \<and> searchScript (exampleSearch None (Some ''Work'')) = searchHead
        @ ''set allMessages to every message of account '' @ dquote @ ''Work'' @ dquote @ ''\<newline>''
        @ searchBody (exampleSearch None (Some ''Work''))
   \<and> searchScript (exampleSearch None None) = searchHead
        @ ''set targetMailbox to inbox\<newline>set allMessages to every message of targetMailbox\<newline>''
        @ searchBody (exampleSearch None None)"
  using search_source_precedence[of "exampleSearch (Some ''Archive'') (Some ''Work'')" "''Archive''" "''Work''"]
    search_source_precedence[of "exampleSearch (Some ''Archive'') None" "''Archive''" "''Work''"]
    search_source_precedence[of "exampleSearch None (Some ''Work'')" "''Archive''" "''Work''"]
    search_source_precedence[of "exampleSearch None None" "''Archive''" "''Work''"]
  by (simp add: exampleSearch_def)

text \<open>
  Claim C4. For every message identifier and every mailbox and account hint: when the
  fetch-by-id script has run (the availability guard has returned) and the interpreter has
  exited with code 0 and an output that is the sentinel \<open>NOT_FOUND\<close>, up to the surrounding
  white space that the invoker trims, \<open>getEmailById\<close> returns the absent result and does not
  throw.
\<close>

theorem getEmailById_not_found:
  assumes "ensureMailRunning h w = (Inr (), w1)"
    and "spawn h (getEmailScript mid mb acc) w1 = (Closed (Some 0) out err, w2)"
    and "trim out = ''NOT_FOUND''"
  shows "getEmailById h mid mb acc w = (Inr None, w2)"
  using assms by (simp add: getEmailById_def executeAppleScriptFile_def)

lemma ensure_scripted_running:
  "ensureMailRunning (scriptedHost (ExecResolved ''true\<newline>'' []) s) w = (Inr (), w)"
  by (simp add: ensureMailRunning_def isMailRunning_def executeAppleScript_def scriptedHost_def
        trim_true lower_true)

theorem getEmailById_not_found_witness:
  "getEmailById (scriptedHost (ExecResolved ''true\<newline>'' []) (Closed (Some 0) ''NOT_FOUND'' []))
     ''42'' None None () = (Inr None, ())"
proof -
  have t: "trim ''NOT_FOUND'' = ''NOT_FOUND''" by code_simp
  show ?thesis
    by (rule getEmailById_not_found[OF ensure_scripted_running _ t])
       (simp add: scriptedHost_def)
qed

lemma ensure_scripted_down:
  "ensureMailRunning (scriptedHost (ExecRejected msg) s) w
     = (Inl (Error (''AppleScript execution failed: '' @ msg)), w)"
  by (simp add: ensureMailRunning_def isMailRunning_def executeAppleScript_def scriptedHost_def)

text \<open>
  Claim C5, as the code has it. For every draft, once the availability guard has returned: when
  the invocation of the send script throws, \<open>sendEmail\<close> returns the result with
  \<open>success = false\<close> and the message of the failure, and does not throw; when it succeeds,
  the result has \<open>success = true\<close> and the returned identifier. The guard runs before the
  \<open>try\<close> block: when its \<open>activate\<close> invocation throws, \<open>sendEmail\<close> throws the same error.
\<close>

theorem sendEmail_structured_result:
  "(ensureMailRunning h w = (Inr (), w1)
      \<and> executeAppleScriptFile h (sendScript draft) w1 = (Inl (Error msg), w2) \<longrightarrow>
        sendEmail h draft w = (Inr \<lparr>success = False, messageId = None, error = Some msg\<rparr>, w2))
   \<and> (ensureMailRunning h w = (Inr (), w1)
      \<and> executeAppleScriptFile h (sendScript draft) w1 = (Inr mid, w2) \<longrightarrow>
        sendEmail h draft w = (Inr \<lparr>success = True, messageId = Some mid, error = None\<rparr>, w2))
   \<and> (ensureMailRunning h w = (Inl e, w1) \<longrightarrow> sendEmail h draft w = (Inl e, w1))"
  by (simp add: sendEmail_def)

theorem sendEmail_structured_result_witness:
  "sendEmail (scriptedHost (ExecResolved ''true\<newline>'' []) (Closed (Some 1) [] ''Mail got an error''))
       exampleDraft ()
     = (Inr \<lparr>success = False, messageId = None,
             error = Some ''AppleScript execution failed with code 1: Mail got an error''\<rparr>, ())
   \<and> sendEmail (scriptedHost (ExecResolved ''true\<newline>'' []) (Closed (Some 0) ''1234\<newline>'' []))
       exampleDraft ()
     = (Inr \<lparr>success = True, messageId = Some ''1234'', error = None\<rparr>, ())
   \<and> sendEmail (scriptedHost (ExecRejected ''Command failed'') (SpawnError ''Command failed''))
       exampleDraft ()
     = (Inl (Error ''AppleScript execution failed: Command failed''), ())"
proof -
  have c: "showCode (Some 1) = ''1''" by code_simp
  have t: "trim ''1234\<newline>'' = ''1234''" by code_simp
  have f: "executeAppleScriptFile
             (scriptedHost (ExecResolved ''true\<newline>'' []) (Closed (Some 1) [] ''Mail got an error''))
             (sendScript exampleDraft) ()
           = (Inl (Error ''AppleScript execution failed with code 1: Mail got an error''), ())"
    by (simp add: executeAppleScriptFile_def scriptedHost_def c)
  have s: "executeAppleScriptFile
             (scriptedHost (ExecResolved ''true\<newline>'' []) (Closed (Some 0) ''1234\<newline>'' []))
             (sendScript exampleDraft) ()
           = (Inr ''1234'', ())"
    by (simp add: executeAppleScriptFile_def scriptedHost_def t)
  from sendEmail_structured_result[of
        "scriptedHost (ExecResolved ''true\<newline>'' []) (Closed (Some 1) [] ''Mail got an error'')"
        "()" "()" exampleDraft "''AppleScript execution failed with code 1: Mail got an error''" "()"]
    sendEmail_structured_result[of
        "scriptedHost (ExecResolved ''true\<newline>'' []) (Closed (Some 0) ''1234\<newline>'' [])"
        "()" "()" exampleDraft _ "()" "''1234''"]
    sendEmail_structured_result[of
        "scriptedHost (ExecRejected ''Command failed'') (SpawnError ''Command failed'')"
        "()" "()" exampleDraft _ "()" _ "Error ''AppleScript execution failed: Command failed''"]
    f s
  show ?thesis by (simp add: ensure_scripted_running ensure_scripted_down)
qed

text \<open>
  Claim C5 as stated fails: on a machine where no \<open>osascript\<close> command line can be run (Mail
  is found not running, and activating it throws), a subprocess invocation inside \<open>sendEmail\<close>
  throws and \<open>sendEmail\<close> propagates the throw instead of returning a structured result.
\<close>

theorem sendEmail_propagates_guard_failure_counterexample:
  "sendEmail (scriptedHost (ExecRejected ''Command failed'') (SpawnError ''Command failed''))
       exampleDraft ()
     = (Inl (Error ''AppleScript execution failed: Command failed''), ())"
  by (simp add: sendEmail_def ensure_scripted_down)

text \<open>
  Claim C6, as the code has it. Once the availability guard has returned, \<open>moveEmail\<close> and
  \<open>setReadStatus\<close> return \<open>false\<close> whenever the execution of their script throws, whatever
  the failure, and \<open>true\<close> when it succeeds. The guard runs before the \<open>try\<close> block: when
  its \<open>activate\<close> invocation throws, both operations throw the same error.
\<close>

theorem move_and_setRead_collapse_script_failure:
  "(ensureMailRunning h w = (Inr (), w1)
      \<and> executeAppleScriptFile h (moveScript mid box acc) w1 = (Inl e, w2) \<longrightarrow>
        moveEmail h mid box acc w = (Inr False, w2))
   \<and> (ensureMailRunning h w = (Inr (), w1)
      \<and> executeAppleScriptFile h (moveScript mid box acc) w1 = (Inr r, w2) \<longrightarrow>
        moveEmail h mid box acc w = (Inr True, w2))
   \<and> (ensureMailRunning h w = (Inl e, w1) \<longrightarrow> moveEmail h mid box acc w = (Inl e, w1))
   \<and> (ensureMailRunning h w = (Inr (), w1)
      \<and> executeAppleScriptFile h (setReadScript mid b) w1 = (Inl e, w2) \<longrightarrow>
        setReadStatus h mid b w = (Inr False, w2))
   \<and> (ensureMailRunning h w = (Inr (), w1)
      \<and> executeAppleScriptFile h (setReadScript mid b) w1 = (Inr r, w2) \<longrightarrow>
        setReadStatus h mid b w = (Inr True, w2))
   \<and> (ensureMailRunning h w = (Inl e, w1) \<longrightarrow> setReadStatus h mid b w = (Inl e, w1))"
  by (simp add: moveEmail_def setReadStatus_def)

theorem move_and_setRead_collapse_script_failure_witness:
  "moveEmail (scriptedHost (ExecResolved ''true\<newline>'' []) (Closed (Some 1) [] ''Mail got an error''))
       ''42'' ''Archive'' None () = (Inr False, ())
   \<and> moveEmail (scriptedHost (ExecResolved ''true\<newline>'' []) (Closed (Some 0) ''SUCCESS\<newline>'' []))
       ''42'' ''Archive'' None () = (Inr True, ())
   \<and> moveEmail (scriptedHost (ExecRejected ''Command failed'') (SpawnError ''Command failed''))
       ''42'' ''Archive'' None ()
     = (Inl (Error ''AppleScript execution failed: Command failed''), ())
   \<and> setReadStatus (scriptedHost (ExecResolved ''true\<newline>'' []) (SpawnError ''spawn osascript ENOENT''))
       ''42'' True () = (Inr False, ())
   \<and> setReadStatus (scriptedHost (ExecResolved ''true\<newline>'' []) (Closed (Some 0) ''SUCCESS\<newline>'' []))
       ''42'' True () = (Inr True, ())
   \<and> setReadStatus (scriptedHost (ExecRejected ''Command failed'') (SpawnError ''Command failed''))
       ''42'' True ()
     = (Inl (Error ''AppleScript execution failed: Command failed''), ())"
proof -
  have c: "showCode (Some 1) = ''1''" by code_simp
  have t: "trim ''SUCCESS\<newline>'' = ''SUCCESS''" by code_simp
  have f1: "executeAppleScriptFile
             (scriptedHost (ExecResolved ''true\<newline>'' []) (Closed (Some 1) [] ''Mail got an error''))
             (moveScript ''42'' ''Archive'' None) ()
           = (Inl (Error ''AppleScript execution failed with code 1: Mail got an error''), ())"
    by (simp add: executeAppleScriptFile_def scriptedHost_def c)
  have s1: "executeAppleScriptFile
             (scriptedHost (ExecResolved ''true\<newline>'' []) (Closed (Some 0) ''SUCCESS\<newline>'' []))
             (moveScript ''42'' ''Archive'' None) () = (Inr ''SUCCESS'', ())"
    by (simp add: executeAppleScriptFile_def scriptedHost_def t)
  have f2: "executeAppleScriptFile
             (scriptedHost (ExecResolved ''true\<newline>'' []) (SpawnError ''spawn osascript ENOENT''))
             (setReadScript ''42'' True) ()
           = (Inl (Error ''AppleScript execution failed: spawn osascript ENOENT''), ())"
    by (simp add: executeAppleScriptFile_def scriptedHost_def)
  have s2: "executeAppleScriptFile
             (scriptedHost (ExecResolved ''true\<newline>'' []) (Closed (Some 0) ''SUCCESS\<newline>'' []))
             (setReadScript ''42'' True) () = (Inr ''SUCCESS'', ())"
    by (simp add: executeAppleScriptFile_def scriptedHost_def t)
  from move_and_setRead_collapse_script_failure[of
        "scriptedHost (ExecResolved ''true\<newline>'' []) (Closed (Some 1) [] ''Mail got an error'')"
        "()" "()" "''42''" "''Archive''" None
        "Error ''AppleScript execution failed with code 1: Mail got an error''" "()"]
    move_and_setRead_collapse_script_failure[of
        "scriptedHost (ExecResolved ''true\<newline>'' []) (Closed (Some 0) ''SUCCESS\<newline>'' [])"
        "()" "()" "''42''" "''Archive''" None _ "()" "''SUCCESS''" True]
    move_and_setRead_collapse_script_failure[of
        "scriptedHost (ExecRejected ''Command failed'') (SpawnError ''Command failed'')"
        "()" "()" "''42''" "''Archive''" None
        "Error ''AppleScript execution failed: Command failed''" "()" _ True]
    move_and_setRead_collapse_script_failure[of
        "scriptedHost (ExecResolved ''true\<newline>'' []) (SpawnError ''spawn osascript ENOENT'')"
        "()" "()" "''42''" _ _
        "Error ''AppleScript execution failed: spawn osascript ENOENT''" "()" _ True]
    f1 s1 f2 s2
  show ?thesis by (simp add: ensure_scripted_running ensure_scripted_down)
qed

text \<open>
  Claim C6 as stated fails: on a machine where no \<open>osascript\<close> command line can be run, both
  operations propagate the error of the guard instead of returning \<open>false\<close>.
\<close>

theorem move_and_setRead_propagate_guard_failure_counterexample:
  "setReadStatus (scriptedHost (ExecRejected ''Command failed'') (SpawnError ''Command failed''))
       ''42'' True ()
     = (Inl (Error ''AppleScript execution failed: Command failed''), ())
   \<and> moveEmail (scriptedHost (ExecRejected ''Command failed'') (SpawnError ''Command failed''))
       ''42'' ''Archive'' None ()
     = (Inl (Error ''AppleScript execution failed: Command failed''), ())"
  by (simp add: setReadStatus_def moveEmail_def ensure_scripted_down)

text \<open>
  Claim C9. The Mail application is outside the program: \<open>readState w i\<close> is the read flag of
  message \<open>i\<close> in the state \<open>w\<close> (\<open>None\<close> when there is no such message). Suppose the
  automation layer succeeds, that is, the availability guard returns and leaves the messages
  alone, and the interpreter, given the set-read-status script for an existing message, exits
  with code 0 having set the flag the script names. Then two invocations in a row with the same
  identifier and value both return \<open>true\<close>, the second no differently from the first, and the
  read flag equals the requested value after either.
\<close>

theorem setReadStatus_twice:
  assumes guard: "\<forall>w. \<exists>w'. ensureMailRunning h w = (Inr (), w') \<and> readState w' = readState w"
    and script: "\<forall>w. readState w mid \<noteq> None \<longrightarrow>
           (\<exists>out err w'.
              spawn h (''\<newline>tell application '' @ dquote @ ''Mail'' @ dquote @ ''\<newline>''
                       @ ''  set theMessage to first message whose id is '' @ mid @ ''\<newline>''
                       @ ''  set read status of theMessage to '' @ (if b then ''true'' else ''false'')
                       @ ''\<newline>  return '' @ dquote @ ''SUCCESS'' @ dquote @ ''\<newline>end tell\<newline>  '') w
                = (Closed (Some 0) out err, w')
              \<and> readState w' mid = Some b)"
    and exists: "readState w0 mid \<noteq> None"
  shows "\<exists>w1 w2. setReadStatus h mid b w0 = (Inr True, w1) \<and> readState w1 mid = Some b
           \<and> setReadStatus h mid b w1 = (Inr True, w2) \<and> readState w2 mid = Some b"
proof -
  have step: "\<exists>w'. setReadStatus h mid b w = (Inr True, w') \<and> readState w' mid = Some b"
    if "readState w mid \<noteq> None" for w
  proof -
    from guard obtain u where u: "ensureMailRunning h w = (Inr (), u)" "readState u = readState w"
      by blast
    with that have "readState u mid \<noteq> None" by simp
    with script obtain out err w' where
      "spawn h (setReadScript mid b) u = (Closed (Some 0) out err, w')" "readState w' mid = Some b"
      unfolding setReadScript_def by auto
    with u show ?thesis
      by (simp add: setReadStatus_def executeAppleScriptFile_def)
  qed
  from step[OF exists] obtain w1 where
    w1: "setReadStatus h mid b w0 = (Inr True, w1)" "readState w1 mid = Some b" by blast
  then have "readState w1 mid \<noteq> None" by simp
  from step[OF this] obtain w2 where
    "setReadStatus h mid b w1 = (Inr True, w2)" "readState w2 mid = Some b" by blast
  with w1 show ?thesis by blast
qed

lemma ensure_example_host: "ensureMailRunning exampleMailHost w = (Inr (), w)"
  by (simp add: ensureMailRunning_def isMailRunning_def executeAppleScript_def exampleMailHost_def
        trim_true lower_true)

theorem setReadStatus_twice_witness:
  "exampleStore ''42'' \<noteq> None
   \<and> fst (setReadStatus exampleMailHost ''42'' True exampleStore) = Inr True
   \<and> snd (setReadStatus exampleMailHost ''42'' True exampleStore) ''42'' = Some True
   \<and> fst (setReadStatus exampleMailHost ''42'' True
            (snd (setReadStatus exampleMailHost ''42'' True exampleStore))) = Inr True
   \<and> snd (setReadStatus exampleMailHost ''42'' True
            (snd (setReadStatus exampleMailHost ''42'' True exampleStore))) ''42'' = Some True"
proof -
  have g: "\<forall>w. \<exists>w'. ensureMailRunning exampleMailHost w = (Inr (), w') \<and> (\<lambda>w. w) w' = (\<lambda>w. w) w"
    by (simp add: ensure_example_host)
  have s: "\<forall>w. (\<lambda>w. w) w ''42'' \<noteq> None \<longrightarrow>
           (\<exists>out err w'.
              spawn exampleMailHost
                (''\<newline>tell application '' @ dquote @ ''Mail'' @ dquote @ ''\<newline>''
                       @ ''  set theMessage to first message whose id is '' @ ''42'' @ ''\<newline>''
                       @ ''  set read status of theMessage to '' @ (if True then ''true'' else ''false'')
                       @ ''\<newline>  return '' @ dquote @ ''SUCCESS'' @ dquote @ ''\<newline>end tell\<newline>  '') w
                = (Closed (Some 0) out err, w')
              \<and> (\<lambda>w. w) w' ''42'' = Some True)"
    by (simp add: exampleMailHost_def setReadScript_def)
  have e: "(\<lambda>w. w) exampleStore ''42'' \<noteq> None" by (simp add: exampleStore_def)
  from setReadStatus_twice[of exampleMailHost "\<lambda>w. w" "''42''" True exampleStore, OF g s e] e
  show ?thesis by auto
qed

end
